theory Spec2Isabelle
  imports Complex_Main "HOL-Library.Sublist"
begin

section \<open>Python string primitives\<close>

text \<open>
  Python strings are modelled as \<open>string\<close>: lists of characters whose code points lie in
  the 8-bit range (Latin-1). On that range \<open>str.lower\<close> maps \<open>A-Z\<close> and the accented
  capitals \<open>0xC0-0xDE\<close> (without the multiplication sign \<open>0xD7\<close>) to the character 32
  places further on and leaves every other character alone.
\<close>

definition py_lower_char :: "char \<Rightarrow> char" where
  "py_lower_char c =
     (let n = (of_char c :: nat)
      in if (65 \<le> n \<and> n \<le> 90) \<or> (192 \<le> n \<and> n \<le> 214) \<or> (216 \<le> n \<and> n \<le> 222)
         then char_of (n + 32) else c)"

definition lower :: "string \<Rightarrow> string" where
  "lower s = map py_lower_char s"

text \<open>\<open>k in s\<close> on two Python strings: \<open>k\<close> occurs in \<open>s\<close> as a contiguous block.\<close>

fun py_in :: "string \<Rightarrow> string \<Rightarrow> bool" where
  "py_in k [] = (k = [])"
| "py_in k (c # cs) = (prefix k (c # cs) \<or> py_in k cs)"

text \<open>The character classes \<open>\s\<close> and \<open>\d\<close> of the \<open>re\<close> module, on the 8-bit range.\<close>

definition py_isspace :: "char \<Rightarrow> bool" where
  "py_isspace c =
     (let n = (of_char c :: nat)
      in (9 \<le> n \<and> n \<le> 13) \<or> (28 \<le> n \<and> n \<le> 32) \<or> n = 133 \<or> n = 160)"

definition py_isdigit :: "char \<Rightarrow> bool" where
  "py_isdigit c = (let n = (of_char c :: nat) in 48 \<le> n \<and> n \<le> 57)"

text \<open>\<open>str(n)\<close> for a natural number: its decimal digits.\<close>

fun str_nat :: "nat \<Rightarrow> string" where
  "str_nat n =
     (if n < 10 then [''0123456789'' ! n]
      else str_nat (n div 10) @ [''0123456789'' ! (n mod 10)])"

declare str_nat.simps [simp del]

section \<open>The demo's natural-language parser (app.py)\<close>

record pattern_info =
  keywords_of :: "string list"
  sql_template :: string

text \<open>
  \<open>self.patterns\<close> is a dict literal; iteration follows insertion order, so it is kept as
  an association list in the order of the source.
\<close>

record parser =
  patterns :: "(string \<times> pattern_info) list"

definition NaturalLanguageParser_init :: parser where
  "NaturalLanguageParser_init = \<lparr> patterns = [
     (''salinity_near_equator'',
        \<lparr> keywords_of = [''salinity'', ''equator'', ''near equator''],
          sql_template = ''SELECT * FROM argo_data WHERE lat BETWEEN -5 AND 5 AND time LIKE '' @ [CHR 0x27] @ ''%2023-03%'' @ [CHR 0x27] \<rparr>),
     (''temperature_by_depth'',
        \<lparr> keywords_of = [''temperature'', ''depth''],
          sql_template = ''SELECT depth, AVG(temperature) as avg_temperature FROM argo_data GROUP BY depth ORDER BY depth'' \<rparr>),
     (''all_march_data'',
        \<lparr> keywords_of = [''march'', ''2023'', ''march 2023''],
          sql_template = ''SELECT * FROM argo_data WHERE time LIKE '' @ [CHR 0x27] @ ''%2023-03%'' @ [CHR 0x27] \<rparr>),
     (''surface_data'',
        \<lparr> keywords_of = [''surface'', ''surface water''],
          sql_template = ''SELECT * FROM argo_data WHERE depth <= 50'' \<rparr>),
     (''deep_water'',
        \<lparr> keywords_of = [''deep'', ''deep water''],
          sql_template = ''SELECT * FROM argo_data WHERE depth >= 500'' \<rparr>),
     (''float_specific'',
        \<lparr> keywords_of = [''float''],
          sql_template = ''SELECT * FROM argo_data WHERE float_id = {float_id}'' \<rparr>),
     (''all_data'',
        \<lparr> keywords_of = [''all'', ''everything'', ''show all''],
          sql_template = ''SELECT * FROM argo_data'' \<rparr>)] \<rparr>"

text \<open>
  \<open>re.search(r'float\s+(\d+)', s)\<close>: the leftmost position where \<open>float\<close>, at least one
  whitespace character and at least one digit follow one another; group 1 is the longest
  run of digits there. Whitespace and digits are disjoint classes, so the greedy match
  never has to give characters back.
\<close>

definition float_match_at :: "string \<Rightarrow> string option" where
  "float_match_at s =
     (if prefix ''float'' s
      then (let r = drop 5 s;
                ws = takeWhile py_isspace r;
                ds = takeWhile py_isdigit (dropWhile py_isspace r)
            in if ws \<noteq> [] \<and> ds \<noteq> [] then Some ds else None)
      else None)"

fun re_search_float :: "string \<Rightarrow> string option" where
  "re_search_float [] = None"
| "re_search_float (c # cs) =
     (case float_match_at (c # cs) of
        Some ds \<Rightarrow> Some ds
      | None \<Rightarrow> re_search_float cs)"

text \<open>The inner loop over one pattern's keywords: the first hit returns the template.\<close>

fun scan_keywords :: "string list \<Rightarrow> string \<Rightarrow> string \<Rightarrow> string option" where
  "scan_keywords [] tmpl q = None"
| "scan_keywords (keyword # ks) tmpl q =
     (if py_in keyword q then Some tmpl else scan_keywords ks tmpl q)"

text \<open>The outer loop over \<open>self.patterns.items()\<close>.\<close>

fun scan_patterns :: "(string \<times> pattern_info) list \<Rightarrow> string \<Rightarrow> string option" where
  "scan_patterns [] q = None"
| "scan_patterns ((pattern_name, info) # ps) q =
     (case scan_keywords (keywords_of info) (sql_template info) q of
        Some sql \<Rightarrow> Some sql
      | None \<Rightarrow> scan_patterns ps q)"

definition parse_query :: "parser \<Rightarrow> string \<Rightarrow> string" where
  "parse_query self user_query =
     (let user_query_lower = lower user_query
      in case re_search_float user_query_lower of
           Some float_id \<Rightarrow> ''SELECT * FROM argo_data WHERE float_id = '' @ float_id
         | None \<Rightarrow>
             (case scan_patterns (patterns self) user_query_lower of
                Some sql \<Rightarrow> sql
              | None \<Rightarrow> ''SELECT * FROM argo_data LIMIT 10''))"

text \<open>\<open>sep.join(parts)\<close>.\<close>

fun py_join :: "string \<Rightarrow> string list \<Rightarrow> string" where
  "py_join sep [] = []"
| "py_join sep [x] = x"
| "py_join sep (x # y # ys) = x @ sep @ py_join sep (y # ys)"

definition explanations :: "(string \<times> string) list" where
  "explanations = [
     (''salinity'', ''Analyzing salinity measurements''),
     (''temperature'', ''Examining temperature data''),
     (''equator'', ''Filtering data near the equatorial region''),
     (''depth'', ''Grouping data by depth levels''),
     (''march'', ''Focusing on March 2023 measurements''),
     (''surface'', ''Looking at surface water data''),
     (''deep'', ''Examining deep water measurements'')]"

text \<open>The loop that appends the explanation of every key found in the query.\<close>

fun collect_explanations :: "(string \<times> string) list \<Rightarrow> string \<Rightarrow> string list" where
  "collect_explanations [] q = []"
| "collect_explanations ((key, explanation) # es) q =
     (if py_in key q then explanation # collect_explanations es q
      else collect_explanations es q)"

definition generate_explanation :: "parser \<Rightarrow> string \<Rightarrow> string \<Rightarrow> string" where
  "generate_explanation self user_query sql_query =
     (let user_query_lower = lower user_query;
          explanation_parts = collect_explanations explanations user_query_lower
      in if explanation_parts \<noteq> []
         then ''Query interpretation: '' @ py_join '', '' explanation_parts
         else ''Query interpretation: Retrieving ARGO ocean data'')"

subsection \<open>The reading of the translation as a first-match table\<close>

text \<open>
  The description of the translation in words: a pattern matches when one of its keywords
  occurs as a contiguous substring of the lowercased query, and the first matching
  pattern in declaration order is the one that counts.
\<close>

definition keyword_occurs :: "string list \<Rightarrow> string \<Rightarrow> bool" where
  "keyword_occurs ks l = (\<exists>k\<in>set ks. sublist k l)"

definition first_pattern :: "parser \<Rightarrow> string \<Rightarrow> pattern_info option" where
  "first_pattern self l =
     map_option snd (find (\<lambda>p. keyword_occurs (keywords_of (snd p)) l) (patterns self))"

section \<open>The prototype backend's query translation (simple_main.py)\<close>

text \<open>\<open>any(word in query_lower for word in words)\<close>.\<close>

fun any_word_in :: "string list \<Rightarrow> string \<Rightarrow> bool" where
  "any_word_in [] q = False"
| "any_word_in (word # ws) q = (if py_in word q then True else any_word_in ws q)"

definition process_natural_language_query :: "string \<Rightarrow> string \<times> string" where
  "process_natural_language_query query =
     (let query_lower = lower query in
      if any_word_in [''temperature'', ''temp'', ''thermal'', ''warm'', ''cold'', ''heat''] query_lower then
        (if py_in ''high'' query_lower \<or> py_in ''warm'' query_lower \<or> py_in ''hot'' query_lower then
           (''SELECT * FROM argo_profiles WHERE ocean_temperature IS NOT NULL ORDER BY ocean_temperature DESC LIMIT 10'',
            ''Finding the highest/warmest ocean temperature measurements'')
         else if py_in ''low'' query_lower \<or> py_in ''cold'' query_lower \<or> py_in ''cool'' query_lower then
           (''SELECT * FROM argo_profiles WHERE ocean_temperature IS NOT NULL ORDER BY ocean_temperature ASC LIMIT 10'',
            ''Finding the lowest/coldest ocean temperature measurements'')
         else
           (''SELECT float_id, ocean_temperature, latitude, longitude, date_time FROM argo_profiles WHERE ocean_temperature IS NOT NULL ORDER BY date_time DESC LIMIT 15'',
            ''Retrieving recent ocean temperature data from ARGO profiles''))
      else if any_word_in [''salinity'', ''salt'', ''saline''] query_lower then
        (if py_in ''high'' query_lower then
           (''SELECT * FROM argo_profiles WHERE salinity IS NOT NULL ORDER BY salinity DESC LIMIT 10'',
            ''Finding areas with highest salinity levels'')
         else if py_in ''low'' query_lower then
           (''SELECT * FROM argo_profiles WHERE salinity IS NOT NULL ORDER BY salinity ASC LIMIT 10'',
            ''Finding areas with lowest salinity levels'')
         else
           (''SELECT float_id, salinity, latitude, longitude, date_time FROM argo_profiles WHERE salinity IS NOT NULL ORDER BY date_time DESC LIMIT 15'',
            ''Retrieving recent salinity measurements from ARGO profiles''))
      else if any_word_in [''pressure'', ''depth'', ''deep'', ''shallow''] query_lower then
        (if py_in ''deep'' query_lower \<or> py_in ''high'' query_lower then
           (''SELECT * FROM argo_profiles WHERE pressure IS NOT NULL ORDER BY pressure DESC LIMIT 10'',
            ''Finding measurements from deepest locations (highest pressure)'')
         else
           (''SELECT float_id, pressure, ocean_temperature, salinity, date_time FROM argo_profiles WHERE pressure IS NOT NULL ORDER BY pressure DESC LIMIT 15'',
            ''Retrieving pressure/depth data from ARGO profiles''))
      else if any_word_in [''pacific'', ''atlantic'', ''indian'', ''ocean'', ''location'', ''where''] query_lower then
        (''SELECT float_id, latitude, longitude, project_name, status FROM argo_floats ORDER BY deployment_date DESC LIMIT 15'',
         ''Showing ARGO float locations and deployment information'')
      else if any_word_in [''anomal'', ''unusual'', ''strange'', ''alert'', ''problem'', ''issue''] query_lower then
        (if py_in ''temperature'' query_lower then
           (''SELECT * FROM ocean_anomalies WHERE anomaly_type LIKE '%temperature%' ORDER BY detected_at DESC LIMIT 10'',
            ''Retrieving temperature-related anomalies detected by the system'')
         else if py_in ''salinity'' query_lower then
           (''SELECT * FROM ocean_anomalies WHERE anomaly_type LIKE '%salinity%' ORDER BY detected_at DESC LIMIT 10'',
            ''Retrieving salinity-related anomalies detected by the system'')
         else
           (''SELECT * FROM ocean_anomalies ORDER BY confidence DESC, detected_at DESC LIMIT 10'',
            ''Retrieving recent ocean anomalies detected by the system''))
      else if any_word_in [''float'', ''buoy'', ''sensor'', ''device'', ''platform''] query_lower then
        (if py_in ''active'' query_lower then
           (''SELECT * FROM argo_floats WHERE status = 'active' ORDER BY deployment_date DESC'',
            ''Retrieving information about currently active ARGO floats'')
         else if py_in ''project'' query_lower then
           (''SELECT project_name, COUNT(*) as float_count, data_center FROM argo_floats GROUP BY project_name, data_center ORDER BY float_count DESC'',
            ''Showing ARGO float distribution by research projects'')
         else
           (''SELECT * FROM argo_floats ORDER BY deployment_date DESC LIMIT 10'',
            ''Retrieving information about ARGO floats''))
      else if any_word_in [''data'', ''measurement'', ''profile'', ''sample'', ''record''] query_lower then
        (if py_in ''recent'' query_lower \<or> py_in ''latest'' query_lower \<or> py_in ''new'' query_lower then
           (''SELECT * FROM argo_profiles ORDER BY date_time DESC LIMIT 15'',
            ''Showing the most recent oceanographic measurements'')
         else
           (''SELECT COUNT(*) as total_profiles, AVG(ocean_temperature) as avg_temp, AVG(salinity) as avg_salinity FROM argo_profiles'',
            ''Providing summary statistics of all oceanographic data''))
      else if any_word_in [''scientist'', ''researcher'', ''pi'', ''principal'', ''investigator''] query_lower then
        (''SELECT pi_name, project_name, COUNT(*) as float_count FROM argo_floats GROUP BY pi_name, project_name ORDER BY float_count DESC'',
         ''Showing research projects and principal investigators'')
      else if any_word_in [''today'', ''yesterday'', ''week'', ''month'', ''year'', ''recent''] query_lower then
        (''SELECT * FROM argo_profiles ORDER BY date_time DESC LIMIT 20'',
         ''Showing recent oceanographic measurements ordered by date'')
      else
        (''SELECT * FROM argo_floats LIMIT 8'',
         ''Showing sample ARGO float data for query: '' @ [CHR 0x27] @ query @ [CHR 0x27] @
         ''. Try asking about temperature, salinity, anomalies, floats, locations, or recent data!''))"

text \<open>
  The same reading for the prototype, on two levels: each branch of the chain with its
  keywords, its secondary tests (keywords and the SQL string they select) and the SQL
  string of its \<open>else\<close>, all in the order of the source. The first branch one of whose
  keywords occurs is taken; within it the first secondary test one of whose keywords
  occurs selects the string, and the string of the \<open>else\<close> when none does.
\<close>

definition query_branches :: "(string list \<times> (string list \<times> string) list \<times> string) list" where
  "query_branches = [
     ([''temperature'', ''temp'', ''thermal'', ''warm'', ''cold'', ''heat''],
      [([''high'', ''warm'', ''hot''],
        ''SELECT * FROM argo_profiles WHERE ocean_temperature IS NOT NULL ORDER BY ocean_temperature DESC LIMIT 10''),
       ([''low'', ''cold'', ''cool''],
        ''SELECT * FROM argo_profiles WHERE ocean_temperature IS NOT NULL ORDER BY ocean_temperature ASC LIMIT 10'')],
      ''SELECT float_id, ocean_temperature, latitude, longitude, date_time FROM argo_profiles WHERE ocean_temperature IS NOT NULL ORDER BY date_time DESC LIMIT 15''),
     ([''salinity'', ''salt'', ''saline''],
      [([''high''],
        ''SELECT * FROM argo_profiles WHERE salinity IS NOT NULL ORDER BY salinity DESC LIMIT 10''),
       ([''low''],
        ''SELECT * FROM argo_profiles WHERE salinity IS NOT NULL ORDER BY salinity ASC LIMIT 10'')],
      ''SELECT float_id, salinity, latitude, longitude, date_time FROM argo_profiles WHERE salinity IS NOT NULL ORDER BY date_time DESC LIMIT 15''),
     ([''pressure'', ''depth'', ''deep'', ''shallow''],
      [([''deep'', ''high''],
        ''SELECT * FROM argo_profiles WHERE pressure IS NOT NULL ORDER BY pressure DESC LIMIT 10'')],
      ''SELECT float_id, pressure, ocean_temperature, salinity, date_time FROM argo_profiles WHERE pressure IS NOT NULL ORDER BY pressure DESC LIMIT 15''),
     ([''pacific'', ''atlantic'', ''indian'', ''ocean'', ''location'', ''where''],
      [],
      ''SELECT float_id, latitude, longitude, project_name, status FROM argo_floats ORDER BY deployment_date DESC LIMIT 15''),
     ([''anomal'', ''unusual'', ''strange'', ''alert'', ''problem'', ''issue''],
      [([''temperature''],
        ''SELECT * FROM ocean_anomalies WHERE anomaly_type LIKE '%temperature%' ORDER BY detected_at DESC LIMIT 10''),
       ([''salinity''],
        ''SELECT * FROM ocean_anomalies WHERE anomaly_type LIKE '%salinity%' ORDER BY detected_at DESC LIMIT 10'')],
      ''SELECT * FROM ocean_anomalies ORDER BY confidence DESC, detected_at DESC LIMIT 10''),
     ([''float'', ''buoy'', ''sensor'', ''device'', ''platform''],
      [([''active''],
        ''SELECT * FROM argo_floats WHERE status = 'active' ORDER BY deployment_date DESC''),
       ([''project''],
        ''SELECT project_name, COUNT(*) as float_count, data_center FROM argo_floats GROUP BY project_name, data_center ORDER BY float_count DESC'')],
      ''SELECT * FROM argo_floats ORDER BY deployment_date DESC LIMIT 10''),
     ([''data'', ''measurement'', ''profile'', ''sample'', ''record''],
      [([''recent'', ''latest'', ''new''],
        ''SELECT * FROM argo_profiles ORDER BY date_time DESC LIMIT 15'')],
      ''SELECT COUNT(*) as total_profiles, AVG(ocean_temperature) as avg_temp, AVG(salinity) as avg_salinity FROM argo_profiles''),
     ([''scientist'', ''researcher'', ''pi'', ''principal'', ''investigator''],
      [],
      ''SELECT pi_name, project_name, COUNT(*) as float_count FROM argo_floats GROUP BY pi_name, project_name ORDER BY float_count DESC''),
     ([''today'', ''yesterday'', ''week'', ''month'', ''year'', ''recent''],
      [],
      ''SELECT * FROM argo_profiles ORDER BY date_time DESC LIMIT 20'')]"

definition first_branch ::
  "string \<Rightarrow> (string list \<times> (string list \<times> string) list \<times> string) option" where
  "first_branch l = find (\<lambda>b. keyword_occurs (fst b) l) query_branches"

definition branch_sql :: "string list \<times> (string list \<times> string) list \<times> string \<Rightarrow> string \<Rightarrow> string" where
  "branch_sql b l =
     (case find (\<lambda>t. keyword_occurs (fst t) l) (fst (snd b)) of
        Some t \<Rightarrow> snd t
      | None \<Rightarrow> snd (snd b))"

section \<open>The demo's data manager and chat handler (app.py)\<close>

datatype py_value = PyNone | PyInt int | PyFloat real | PyStr string | PyDate int

text \<open>The exceptions the models raise, as values.\<close>

datatype py_error = TypeError | AttributeError | ValidationError | DatabaseError string

record dataframe =
  columns :: "string list"
  rows :: "py_value list list"

text \<open>
  The in-memory database holds the single table \<open>argo_data\<close>. SQLite itself is not part
  of the repository: it is a parameter, a function from the statement and the table to
  the outcome (an error message or a result frame) and the table afterwards.
\<close>

record ARGODataManager =
  conn :: dataframe

type_synonym sql_engine = "string \<Rightarrow> dataframe \<Rightarrow> (string + dataframe) \<times> dataframe"

definition ARGODataManager_execute_query ::
  "sql_engine \<Rightarrow> ARGODataManager \<Rightarrow> string
     \<Rightarrow> (dataframe option \<times> string option) \<times> ARGODataManager" where
  "ARGODataManager_execute_query engine self sql_query =
     (case engine sql_query (conn self) of
        (Inr df, table') \<Rightarrow> ((Some df, None), self\<lparr>conn := table'\<rparr>)
      | (Inl e, table') \<Rightarrow> ((None, Some e), self\<lparr>conn := table'\<rparr>))"

text \<open>
  A SELECT statement: the text starts with the keyword and holds no semicolon, so it is
  one statement. An engine is select-preserving when such a statement leaves the table as
  it was.
\<close>

definition is_select_statement :: "string \<Rightarrow> bool" where
  "is_select_statement s = (prefix ''SELECT '' s \<and> CHR '';'' \<notin> set s)"

definition select_preserving :: "sql_engine \<Rightarrow> bool" where
  "select_preserving engine =
     (\<forall>sql table. is_select_statement sql \<longrightarrow> snd (engine sql table) = table)"

subsection \<open>The chat handler\<close>

record chat_message =
  msg_role :: string
  msg_content :: string
  msg_data :: "dataframe option"

text \<open>\<open>DataFrame.empty\<close>: one of the two axes has length 0.\<close>

definition df_empty :: "dataframe \<Rightarrow> bool" where
  "df_empty df = (columns df = [] \<or> rows df = [])"

text \<open>\<open>df is None or df.empty\<close>.\<close>

definition none_or_empty :: "dataframe option \<Rightarrow> bool" where
  "none_or_empty df = (case df of None \<Rightarrow> True | Some d \<Rightarrow> df_empty d)"

text \<open>
  The statistics of a non-empty frame (means, ranges, and their formatting) are pandas'
  work: \<open>column_parts\<close> stands for the parts of the summary after the first.
\<close>

definition generate_ai_summary ::
  "(dataframe \<Rightarrow> string list) \<Rightarrow> dataframe option \<Rightarrow> string \<Rightarrow> string" where
  "generate_ai_summary column_parts df user_query =
     (case df of
        None \<Rightarrow> ''No data found for your query.''
      | Some d \<Rightarrow>
          if df_empty d then ''No data found for your query.''
          else py_join '' | ''
                 ((''Found '' @ str_nat (length (rows d)) @ '' data points'') # column_parts d))"

text \<open>\<open>if error:\<close> on the second component of \<open>execute_query\<close>'s result: \<open>None\<close> and
  the empty string are false.\<close>

definition truthy :: "string option \<Rightarrow> bool" where
  "truthy error = (case error of None \<Rightarrow> False | Some e \<Rightarrow> e \<noteq> [])"

text \<open>
  The branch of \<open>main\<close> that follows \<open>execute_query\<close>: the message appended to the chat
  history. The calls that only draw on the page are left out.
\<close>

definition chat_response ::
  "(dataframe \<Rightarrow> string list) \<Rightarrow> string \<Rightarrow> dataframe option \<times> string option
     \<Rightarrow> chat_message" where
  "chat_response column_parts prompt result =
     (case result of (df, error) \<Rightarrow>
        if truthy error then
          \<lparr> msg_role = ''assistant'',
            msg_content = ''Sorry, there was an error processing your query: ''
                        @ (case error of Some e \<Rightarrow> e | None \<Rightarrow> ''None''),
            msg_data = None \<rparr>
        else if none_or_empty df then
          \<lparr> msg_role = ''assistant'',
            msg_content = ''No data found matching your criteria.'',
            msg_data = None \<rparr>
        else
          (let summary = generate_ai_summary column_parts df prompt
           in \<lparr> msg_role = ''assistant'',
                msg_content = ''Found '' @ str_nat (case df of Some d \<Rightarrow> length (rows d) | None \<Rightarrow> 0)
                            @ '' records. '' @ summary,
                msg_data = df \<rparr>))"

text \<open>One turn of the chat: the user's message and the assistant's are appended.\<close>

definition chat_turn ::
  "sql_engine \<Rightarrow> (dataframe \<Rightarrow> string list) \<Rightarrow> parser \<Rightarrow> ARGODataManager
     \<Rightarrow> chat_message list \<Rightarrow> string \<Rightarrow> chat_message list \<times> ARGODataManager" where
  "chat_turn engine column_parts nl_parser data_manager messages prompt =
     (let sql_query = parse_query nl_parser prompt;
          (result, data_manager') = ARGODataManager_execute_query engine data_manager sql_query
      in (messages @ [\<lparr> msg_role = ''user'', msg_content = prompt, msg_data = None \<rparr>,
                      chat_response column_parts prompt result],
          data_manager'))"

section \<open>The prototype's login endpoint (simple_main.py)\<close>

datatype json =
  JNull | JBool bool | JNum real | JStr string | JArr "json list" | JObj "(string \<times> json) list"

record User =
  user_id :: string
  user_email :: string
  full_name :: string
  user_role :: string

record login_response =
  user :: User
  access_token :: string
  token_type :: string

text \<open>
  \<open>word in email\<close> on whatever JSON value the request carried: substring on a string,
  membership on a list, key membership on an object, and a \<open>TypeError\<close> on \<open>null\<close>, a
  boolean or a number.
\<close>

definition json_contains :: "string \<Rightarrow> json \<Rightarrow> py_error + bool" where
  "json_contains word v =
     (case v of
        JStr s \<Rightarrow> Inr (py_in word s)
      | JArr xs \<Rightarrow> Inr (JStr word \<in> set xs)
      | JObj kvs \<Rightarrow> Inr (word \<in> set (map fst kvs))
      | _ \<Rightarrow> Inl TypeError)"

text \<open>The constructor of \<open>User\<close> checks its fields: \<open>email\<close> has to be a string.\<close>

definition make_login_response :: "string \<Rightarrow> string \<Rightarrow> json \<Rightarrow> py_error + login_response" where
  "make_login_response role name email =
     (case email of
        JStr e \<Rightarrow>
          Inr \<lparr> user = \<lparr> user_id = ''demo_'' @ role, user_email = e, full_name = name,
                          user_role = role \<rparr>,
                access_token = ''demo_token_'' @ role,
                token_type = ''bearer'' \<rparr>
      | _ \<Rightarrow> Inl ValidationError)"

definition login :: "(string \<rightharpoonup> json) \<Rightarrow> py_error + login_response" where
  "login credentials =
     (let email = (case credentials ''email'' of Some v \<Rightarrow> v | None \<Rightarrow> JStr [])
      in case json_contains ''scientist'' email of
           Inl err \<Rightarrow> Inl err
         | Inr True \<Rightarrow> make_login_response ''scientist'' ''Dr. Ocean Scientist'' email
         | Inr False \<Rightarrow>
             (case json_contains ''policy'' email of
                Inl err \<Rightarrow> Inl err
              | Inr True \<Rightarrow> make_login_response ''policy_maker'' ''Policy Maker'' email
              | Inr False \<Rightarrow>
                  (case json_contains ''student'' email of
                     Inl err \<Rightarrow> Inl err
                   | Inr True \<Rightarrow> make_login_response ''student'' ''Marine Student'' email
                   | Inr False \<Rightarrow> make_login_response ''scientist'' ''Demo User'' email)))"

text \<open>The role as the claim words it, from the substrings of an email string.\<close>

definition role_of_email :: "string \<Rightarrow> string" where
  "role_of_email e =
     (if sublist ''scientist'' e then ''scientist''
      else if sublist ''policy'' e then ''policy_maker''
      else if sublist ''student'' e then ''student''
      else ''scientist'')"

section \<open>Anomaly severity (alert_service.py)\<close>

text \<open>Floating-point numbers are idealised as real numbers throughout.\<close>

definition calculate_severity :: "real \<Rightarrow> real \<Rightarrow> string" where
  "calculate_severity deviation std_dev =
     (if deviation > 3 * std_dev then ''extreme''
      else if deviation > 2 * std_dev then ''high''
      else if deviation > 1.5 * std_dev then ''medium''
      else ''low'')"

text \<open>The ordering of the four labels: low < medium < high < extreme.\<close>

definition severity_tier :: "string \<Rightarrow> nat" where
  "severity_tier s =
     (if s = ''extreme'' then 3 else if s = ''high'' then 2 else if s = ''medium'' then 1 else 0)"

section \<open>Anomaly detection (alert_service.py)\<close>

text \<open>\<open>np.mean\<close> and \<open>np.std\<close> (the population standard deviation) of a list.\<close>

definition np_mean :: "real list \<Rightarrow> real" where
  "np_mean xs = sum_list xs / real (length xs)"

definition np_std :: "real list \<Rightarrow> real" where
  "np_std xs = sqrt (np_mean (map (\<lambda>x. (x - np_mean xs)\<^sup>2) xs))"

text \<open>\<open>round(x)\<close> with one argument: the nearest integer, a tie going to the even one.\<close>

definition py_round :: "real \<Rightarrow> int" where
  "py_round x =
     (let f = \<lfloor>x\<rfloor>; d = x - of_int f
      in if d < 1/2 then f else if d > 1/2 then f + 1 else if even f then f else f + 1)"

text \<open>
  A row of the join of \<open>argo_measurements\<close> with \<open>argo_profiles\<close>. The profile's columns
  are declared \<open>nullable=False\<close>, the measurement's may be NULL. Dates are timestamps.
\<close>

record joined_row =
  row_latitude :: real
  row_longitude :: real
  row_profile_date :: int
  row_depth :: "real option"
  row_temperature :: "real option"
  row_salinity :: "real option"

text \<open>A row of a detector's query: the position, the date, the variable and the depth.\<close>

record measurement =
  m_latitude :: real
  m_longitude :: real
  m_profile_date :: int
  m_value :: real
  m_depth :: real

text \<open>
  The two queries: rows since \<open>since_date\<close> whose variable is not NULL and whose depth is
  at most 10 (a NULL depth fails the comparison).
\<close>

definition select_measurement :: "(joined_row \<Rightarrow> real option) \<Rightarrow> int \<Rightarrow> joined_row \<Rightarrow> measurement option" where
  "select_measurement var since_date r =
     (case (var r, row_depth r) of
        (Some v, Some d) \<Rightarrow>
          if row_profile_date r \<ge> since_date \<and> d \<le> 10
          then Some \<lparr> m_latitude = row_latitude r, m_longitude = row_longitude r,
                      m_profile_date = row_profile_date r, m_value = v, m_depth = d \<rparr>
          else None
      | _ \<Rightarrow> None)"

definition recent_surface_temperatures :: "int \<Rightarrow> joined_row list \<Rightarrow> measurement list" where
  "recent_surface_temperatures since_date table =
     List.map_filter (select_measurement row_temperature since_date) table"

definition recent_surface_salinities :: "int \<Rightarrow> joined_row list \<Rightarrow> measurement list" where
  "recent_surface_salinities since_date table =
     List.map_filter (select_measurement row_salinity since_date) table"

record anomaly =
  anomaly_type :: string
  severity :: string
  start_date :: int
  end_date :: int
  a_latitude :: int
  a_longitude :: int
  confidence_score :: real
  data_source :: string

text \<open>
  \<open>location_groups\<close> is a dict from a grid cell to the list of its measurements, in
  insertion order. One step of the loop: create the cell's list if the key is new, then
  append the measurement.
\<close>

type_synonym location_groups = "((int \<times> int) \<times> measurement list) list"

fun group_insert :: "int \<times> int \<Rightarrow> measurement \<Rightarrow> location_groups \<Rightarrow> location_groups" where
  "group_insert key m [] = [(key, [m])]"
| "group_insert key m ((k, grp) # rest) =
     (if k = key then (k, grp @ [m]) # rest else (k, grp) # group_insert key m rest)"

fun group_by_location :: "measurement list \<Rightarrow> location_groups \<Rightarrow> location_groups" where
  "group_by_location [] location_groups = location_groups"
| "group_by_location (m # ms) location_groups =
     (let lat_key = py_round (m_latitude m);
          lon_key = py_round (m_longitude m);
          key = (lat_key, lon_key)
      in group_by_location ms (group_insert key m location_groups))"

text \<open>\<open>min\<close> and \<open>max\<close> of the dates of a group (the groups of the loop are never empty).\<close>

definition min_date :: "measurement list \<Rightarrow> int" where
  "min_date grp = (case grp of [] \<Rightarrow> 0 | m # ms \<Rightarrow> fold (\<lambda>m d. min (m_profile_date m) d) ms (m_profile_date m))"

definition max_date :: "measurement list \<Rightarrow> int" where
  "max_date grp = (case grp of [] \<Rightarrow> 0 | m # ms \<Rightarrow> fold (\<lambda>m d. max (m_profile_date m) d) ms (m_profile_date m))"

text \<open>
  The loop over the cells. The description, a text with the deviation formatted to one
  or two decimals, is not modelled.
\<close>

fun check_temperature_groups :: "real \<Rightarrow> real \<Rightarrow> location_groups \<Rightarrow> anomaly list" where
  "check_temperature_groups mean_temp std_temp [] = []"
| "check_temperature_groups mean_temp std_temp (((lat_key, lon_key), grp) # rest) =
     (let group_temps = map m_value grp;
          group_mean = np_mean group_temps;
          deviation = group_mean - mean_temp
      in if \<bar>deviation\<bar> > 2 * std_temp
         then \<lparr> anomaly_type = (if deviation > 0 then ''heatwave'' else ''cold_spell''),
                severity = calculate_severity \<bar>deviation\<bar> std_temp,
                start_date = min_date grp,
                end_date = max_date grp,
                a_latitude = lat_key,
                a_longitude = lon_key,
                confidence_score = min 0.95 (\<bar>deviation\<bar> / (3 * std_temp)),
                data_source = ''ARGO'' \<rparr>
              # check_temperature_groups mean_temp std_temp rest
         else check_temperature_groups mean_temp std_temp rest)"

fun check_salinity_groups :: "real \<Rightarrow> real \<Rightarrow> location_groups \<Rightarrow> anomaly list" where
  "check_salinity_groups mean_salinity std_salinity [] = []"
| "check_salinity_groups mean_salinity std_salinity (((lat_key, lon_key), grp) # rest) =
     (let group_salinities = map m_value grp;
          group_mean = np_mean group_salinities;
          deviation = group_mean - mean_salinity
      in if \<bar>deviation\<bar> > 1.5 * std_salinity
         then \<lparr> anomaly_type = (if deviation > 0 then ''high_salinity'' else ''low_salinity''),
                severity = calculate_severity \<bar>deviation\<bar> std_salinity,
                start_date = min_date grp,
                end_date = max_date grp,
                a_latitude = lat_key,
                a_longitude = lon_key,
                confidence_score = min 0.95 (\<bar>deviation\<bar> / (2 * std_salinity)),
                data_source = ''ARGO'' \<rparr>
              # check_salinity_groups mean_salinity std_salinity rest
         else check_salinity_groups mean_salinity std_salinity rest)"

text \<open>
  The two detectors. The database is the table of joined rows, or the exception that
  \<open>db.execute\<close> raised; any exception ends in the \<open>except\<close> branch, which returns no
  anomalies.
\<close>

definition detect_temperature_anomalies :: "py_error + joined_row list \<Rightarrow> int \<Rightarrow> anomaly list" where
  "detect_temperature_anomalies db since_date =
     (case db of
        Inl e \<Rightarrow> []
      | Inr table \<Rightarrow>
          (let measurements = recent_surface_temperatures since_date table
           in if length measurements < 10 then []
              else (let temperatures = map m_value measurements;
                        mean_temp = np_mean temperatures;
                        std_temp = np_std temperatures;
                        location_groups = group_by_location measurements []
                    in check_temperature_groups mean_temp std_temp location_groups)))"

definition detect_salinity_anomalies :: "py_error + joined_row list \<Rightarrow> int \<Rightarrow> anomaly list" where
  "detect_salinity_anomalies db since_date =
     (case db of
        Inl e \<Rightarrow> []
      | Inr table \<Rightarrow>
          (let measurements = recent_surface_salinities since_date table
           in if length measurements < 10 then []
              else (let salinities = map m_value measurements;
                        mean_salinity = np_mean salinities;
                        std_salinity = np_std salinities;
                        location_groups = group_by_location measurements []
                    in check_salinity_groups mean_salinity std_salinity location_groups)))"

subsection \<open>The detectors in words\<close>

text \<open>
  The grid cell of a measurement, the measurements of a cell, the mean of a cell, and the
  cells that deviate from the global mean by more than \<open>factor\<close> standard deviations.
\<close>

definition cell_of :: "measurement \<Rightarrow> int \<times> int" where
  "cell_of m = (py_round (m_latitude m), py_round (m_longitude m))"

definition cell_members :: "measurement list \<Rightarrow> int \<times> int \<Rightarrow> measurement list" where
  "cell_members ms c = filter (\<lambda>m. cell_of m = c) ms"

definition cell_mean :: "measurement list \<Rightarrow> int \<times> int \<Rightarrow> real" where
  "cell_mean ms c = np_mean (map m_value (cell_members ms c))"

definition cell_deviation :: "measurement list \<Rightarrow> int \<times> int \<Rightarrow> real" where
  "cell_deviation ms c = \<bar>cell_mean ms c - np_mean (map m_value ms)\<bar>"

definition flagged :: "real \<Rightarrow> measurement list \<Rightarrow> int \<times> int \<Rightarrow> bool" where
  "flagged factor ms c =
     (c \<in> cell_of ` set ms \<and> cell_deviation ms c > factor * np_std (map m_value ms))"

definition anomaly_cell :: "anomaly \<Rightarrow> int \<times> int" where
  "anomaly_cell a = (a_latitude a, a_longitude a)"

text \<open>
  A list of anomalies is emitted exactly for the flagged cells: one anomaly per flagged
  cell and none for any other, each with the severity label of its cell's deviation.
\<close>

definition emitted_exactly :: "real \<Rightarrow> measurement list \<Rightarrow> anomaly list \<Rightarrow> bool" where
  "emitted_exactly factor ms as =
     (distinct (map anomaly_cell as)
      \<and> set (map anomaly_cell as) = {c. flagged factor ms c}
      \<and> (\<forall>a\<in>set as. severity a =
            calculate_severity (cell_deviation ms (anomaly_cell a)) (np_std (map m_value ms))))"

text \<open>
  Inputs for the examples: surface rows, nine in one cell and a tenth in another, and
  four in one cell and a fifth in another.
\<close>

definition surface_row :: "real \<Rightarrow> real \<Rightarrow> int \<Rightarrow> real \<Rightarrow> real \<Rightarrow> joined_row" where
  "surface_row la lo d t s =
     \<lparr> row_latitude = la, row_longitude = lo, row_profile_date = d, row_depth = Some 5,
       row_temperature = Some t, row_salinity = Some s \<rparr>"

definition ten_rows :: "joined_row list" where
  "ten_rows = replicate 9 (surface_row 0.2 0.3 100 20 35) @ [surface_row 5.4 4.6 101 30 45]"

definition five_rows :: "joined_row list" where
  "five_rows = replicate 4 (surface_row 0.2 0.3 100 20 35) @ [surface_row 10.4 9.6 101 20 40]"

subsection \<open>Notions for the proofs\<close>

text \<open>The dict built by the grouping loop, described through its lookups.\<close>

definition grouped :: "measurement list \<Rightarrow> location_groups \<Rightarrow> bool" where
  "grouped ms gs =
     (distinct (map fst gs)
      \<and> (\<forall>k. map_of gs k = (if k \<in> cell_of ` set ms then Some (cell_members ms k) else None)))"

text \<open>The loop over the cells keeps the groups whose mean is too far from the global one.\<close>

definition exceeds :: "real \<Rightarrow> real \<Rightarrow> real \<Rightarrow> (int \<times> int) \<times> measurement list \<Rightarrow> bool" where
  "exceeds factor mu sd kg = (\<bar>np_mean (map m_value (snd kg)) - mu\<bar> > factor * sd)"

definition group_label :: "real \<Rightarrow> real \<Rightarrow> (int \<times> int) \<times> measurement list \<Rightarrow> (int \<times> int) \<times> string" where
  "group_label mu sd kg =
     (fst kg, calculate_severity \<bar>np_mean (map m_value (snd kg)) - mu\<bar> sd)"

section \<open>Random numbers\<close>

text \<open>
  The generator behind \<open>np.random\<close> is not part of the repository. Its state is modelled
  as the stream of the numbers in \<open>[0, 1)\<close> it is going to produce, one for each scalar
  drawn; seeding fixes the stream. Every function below takes the stream and returns it
  without the numbers it used.
\<close>

type_synonym rng = "nat \<Rightarrow> real"

definition unit_draws :: "rng \<Rightarrow> bool" where
  "unit_draws g = (\<forall>i. 0 \<le> g i \<and> g i < 1)"

definition random_sample :: "rng \<Rightarrow> real \<times> rng" where
  "random_sample g = (g 0, \<lambda>i. g (Suc i))"

text \<open>\<open>uniform(low, high)\<close>, \<open>randint(low, high)\<close> (the upper end excluded) and
  \<open>choice(xs)\<close>.\<close>

definition uniform :: "real \<Rightarrow> real \<Rightarrow> rng \<Rightarrow> real \<times> rng" where
  "uniform low high g = (case random_sample g of (u, g') \<Rightarrow> (low + (high - low) * u, g'))"

definition randint :: "int \<Rightarrow> int \<Rightarrow> rng \<Rightarrow> int \<times> rng" where
  "randint low high g =
     (case random_sample g of (u, g') \<Rightarrow> (low + \<lfloor>u * of_int (high - low)\<rfloor>, g'))"

definition choice :: "'a list \<Rightarrow> rng \<Rightarrow> 'a \<times> rng" where
  "choice xs g =
     (case random_sample g of (u, g') \<Rightarrow> (xs ! nat \<lfloor>u * real (length xs)\<rfloor>, g'))"

text \<open>A call with a size argument draws that many values, one after the other.\<close>

fun draw_n :: "(rng \<Rightarrow> 'a \<times> rng) \<Rightarrow> nat \<Rightarrow> rng \<Rightarrow> 'a list \<times> rng" where
  "draw_n f 0 g = ([], g)"
| "draw_n f (Suc n) g =
     (case f g of (x, g1) \<Rightarrow> (case draw_n f n g1 of (xs, g2) \<Rightarrow> (x # xs, g2)))"

text \<open>\<open>round(x, ndigits)\<close>: the nearest multiple of \<open>10 ^ -ndigits\<close>, ties to even.\<close>

definition round_to :: "nat \<Rightarrow> real \<Rightarrow> real" where
  "round_to ndigits x = of_int (py_round (x * 10 ^ ndigits)) / 10 ^ ndigits"

section \<open>The demo's sample data (app.py)\<close>

text \<open>
  \<open>pd.DataFrame(data)\<close> for a dict of columns: row \<open>i\<close> takes entry \<open>i\<close> of every
  column. (All columns of the one call in the source have \<open>n_records\<close> entries.)
\<close>

definition DataFrame :: "(string \<times> py_value list) list \<Rightarrow> dataframe" where
  "DataFrame data_dict =
     \<lparr> columns = map fst data_dict,
       rows = (case data_dict of
                 [] \<Rightarrow> []
               | (c, vals) # _ \<Rightarrow> map (\<lambda>i. map (\<lambda>col. snd col ! i) data_dict) [0..<length vals]) \<rparr>"

text \<open>The loop over \<open>depths\<close> that fills \<open>temperatures\<close>.\<close>

fun temperature_loop :: "int list \<Rightarrow> rng \<Rightarrow> real list \<times> rng" where
  "temperature_loop [] g = ([], g)"
| "temperature_loop (depth # depths) g =
     (case (if depth \<le> 50 then uniform 25 30 g
            else if depth \<le> 200 then uniform 20 25 g
            else uniform 2 8 g) of
        (temp, g1) \<Rightarrow>
          (case temperature_loop depths g1 of
             (temperatures, g2) \<Rightarrow> (round_to 2 temp # temperatures, g2)))"

text \<open>
  \<open>create_sample_data\<close>; \<open>g0\<close> is the stream that \<open>np.random.seed(42)\<close> leaves. A date is
  its day number (\<open>date.toordinal\<close>); 1 March 2023 is day 738580.
\<close>

definition create_sample_data :: "rng \<Rightarrow> dataframe" where
  "create_sample_data g0 =
     (let n_records = 30 in
      case draw_n (choice [1001, 1002, 1003]) n_records g0 of (float_ids, g1) \<Rightarrow>
      let start_date = 738580 in
      case draw_n (randint 0 31) n_records g1 of (days, g2) \<Rightarrow>
      let dates = map (\<lambda>k. start_date + k) days in
      case draw_n (uniform (-10) 10) n_records g2 of (latitudes, g3) \<Rightarrow>
      case draw_n (uniform 120 180) n_records g3 of (longitudes, g4) \<Rightarrow>
      case draw_n (choice [0, 10, 50, 100, 200, 500, 1000, 2000]) n_records g4 of (depths, g5) \<Rightarrow>
      case temperature_loop depths g5 of (temperatures, g6) \<Rightarrow>
      case draw_n (uniform 34 37) n_records g6 of (salinities0, g7) \<Rightarrow>
      let salinities = map (round_to 2) salinities0 in
      DataFrame [
        (''float_id'', map PyInt float_ids),
        (''lat'', map (\<lambda>x. PyFloat (round_to 4 x)) latitudes),
        (''lon'', map (\<lambda>x. PyFloat (round_to 4 x)) longitudes),
        (''time'', map PyDate dates),
        (''depth'', map PyInt depths),
        (''temperature'', map PyFloat temperatures),
        (''salinity'', map PyFloat salinities)])"

text \<open>\<open>setup_database\<close> stores the frame as the table \<open>argo_data\<close>.\<close>

definition setup_database :: "rng \<Rightarrow> ARGODataManager" where
  "setup_database g0 = \<lparr> conn = create_sample_data g0 \<rparr>"

text \<open>
  A record with all seven fields, each of its kind and within the bounds of the
  generator: the temperature band goes with the depth.
\<close>

fun valid_record :: "py_value list \<Rightarrow> bool" where
  "valid_record [PyInt fid, PyFloat la, PyFloat lo, PyDate t, PyInt d, PyFloat temp, PyFloat sal] =
     (-10 \<le> la \<and> la \<le> 10 \<and> 120 \<le> lo \<and> lo \<le> 180 \<and> 34 \<le> sal \<and> sal \<le> 37
      \<and> (if d \<le> 50 then 25 \<le> temp \<and> temp \<le> 30
          else if d \<le> 200 then 20 \<le> temp \<and> temp \<le> 25
          else 2 \<le> temp \<and> temp \<le> 8))"
| "valid_record r = False"

text \<open>The band of the temperature that goes with a depth.\<close>

definition temperature_band :: "int \<Rightarrow> real \<Rightarrow> bool" where
  "temperature_band d temp =
     (if d \<le> 50 then 25 \<le> temp \<and> temp \<le> 30
      else if d \<le> 200 then 20 \<le> temp \<and> temp \<le> 25
      else 2 \<le> temp \<and> temp \<le> 8)"

section \<open>The data service (data_service.py)\<close>

text \<open>
  \<open>str.upper\<close> on the 8-bit range: \<open>a-z\<close> and the accented small letters move 32 places
  down, the sharp s becomes \<open>SS\<close>. The capitals of the micro sign and of y with diaeresis
  lie outside the range; the characters stand for them.
\<close>

definition py_upper_char :: "char \<Rightarrow> string" where
  "py_upper_char c =
     (let n = (of_char c :: nat)
      in if (97 \<le> n \<and> n \<le> 122) \<or> (224 \<le> n \<and> n \<le> 246) \<or> (248 \<le> n \<and> n \<le> 254)
         then [char_of (n - 32)]
         else if n = 223 then ''SS'' else [c])"

definition upper :: "string \<Rightarrow> string" where
  "upper s = concat (map py_upper_char s)"

text \<open>\<open>s.rstrip(';')\<close>.\<close>

definition rstrip_semicolons :: "string \<Rightarrow> string" where
  "rstrip_semicolons s = rev (dropWhile (\<lambda>c. c = CHR '';'') (rev s))"

text \<open>A dict with string keys, in insertion order; \<open>dict(pairs)\<close> sets the keys one by one.\<close>

type_synonym py_dict = "(string \<times> py_value) list"

fun dict_set :: "string \<Rightarrow> py_value \<Rightarrow> py_dict \<Rightarrow> py_dict" where
  "dict_set k v [] = [(k, v)]"
| "dict_set k v ((k', v') # d) = (if k' = k then (k', v) # d else (k', v') # dict_set k v d)"

definition dict_of_pairs :: "(string \<times> py_value) list \<Rightarrow> py_dict" where
  "dict_of_pairs pairs = fold (\<lambda>(k, v) d. dict_set k v d) pairs []"

text \<open>
  A row of the sample query, the join of measurements, profiles and floats. The columns
  of the profile and the float's id are declared \<open>nullable=False\<close>; a date-time is a
  number of seconds.
\<close>

record sample_row =
  s_latitude :: real
  s_longitude :: real
  s_profile_date :: int
  s_depth :: "real option"
  s_temperature :: "real option"
  s_salinity :: "real option"
  s_float_id :: string

text \<open>
  The database session: what \<open>db.execute\<close> gives for a text statement (the column names
  and the rows, or the exception raised) and for the sample query with its limit.
\<close>

record AsyncSession =
  execute_text :: "string \<Rightarrow> py_error + string list \<times> py_value list list"
  execute_sample :: "nat \<Rightarrow> py_error + sample_row list"

text \<open>
  What the service takes from outside: the text of a date-time (\<open>isoformat\<close>), the clock,
  and the stream that \<open>np.random.seed(42)\<close> leaves.
\<close>

record environment =
  isoformat :: "int \<Rightarrow> string"
  datetime_now :: int
  seeded_draws :: rng

record DataService =
  max_query_results :: nat

definition DataService_init :: DataService where
  "DataService_init = \<lparr> max_query_results = 10000 \<rparr>"

text \<open>The body of the loop of \<open>_generate_sample_data\<close>, for index \<open>i\<close>.\<close>

definition generate_record :: "environment \<Rightarrow> nat \<Rightarrow> rng \<Rightarrow> py_dict \<times> rng" where
  "generate_record env i g =
     (case uniform (-60) 60 g of (lat, g1) \<Rightarrow>
      case uniform (-180) 180 g1 of (lon, g2) \<Rightarrow>
      case choice [0, 10, 50, 100, 200, 500, 1000] g2 of (depth, g3) \<Rightarrow>
      case (if depth \<le> (50::int) then uniform 15 30 g3
            else if depth \<le> 200 then uniform 8 20 g3
            else uniform 2 8 g3) of (temp, g4) \<Rightarrow>
      case uniform 34 37 g4 of (salinity, g5) \<Rightarrow>
      case randint 0 365 g5 of (days, g6) \<Rightarrow>
        ([(''latitude'', PyFloat (round_to 4 lat)),
          (''longitude'', PyFloat (round_to 4 lon)),
          (''profile_date'', PyStr (isoformat env (datetime_now env - 86400 * days))),
          (''depth'', PyInt depth),
          (''temperature'', PyFloat (round_to 2 temp)),
          (''salinity'', PyFloat (round_to 2 salinity)),
          (''float_id'', PyStr (''FLOAT_'' @ str_nat (1000 + i mod 10)))],
         g6))"

fun generate_loop :: "environment \<Rightarrow> nat list \<Rightarrow> rng \<Rightarrow> py_dict list \<Rightarrow> py_dict list \<times> rng" where
  "generate_loop env [] g data = (data, g)"
| "generate_loop env (i # is) g data =
     (case generate_record env i g of (r, g') \<Rightarrow> generate_loop env is g' (data @ [r]))"

definition generate_sample_data :: "environment \<Rightarrow> py_dict list" where
  "generate_sample_data env = fst (generate_loop env [0..<50] (seeded_draws env) [])"

text \<open>\<open>float(x) if x else None\<close> on a nullable column: NULL and zero both give \<open>None\<close>.\<close>

definition float_or_none :: "real option \<Rightarrow> py_value" where
  "float_or_none x = (case x of Some v \<Rightarrow> if v \<noteq> 0 then PyFloat v else PyNone | None \<Rightarrow> PyNone)"

definition sample_row_dict :: "environment \<Rightarrow> sample_row \<Rightarrow> py_dict" where
  "sample_row_dict env row =
     [(''latitude'', PyFloat (s_latitude row)),
      (''longitude'', PyFloat (s_longitude row)),
      (''profile_date'', PyStr (isoformat env (s_profile_date row))),
      (''depth'', float_or_none (s_depth row)),
      (''temperature'', float_or_none (s_temperature row)),
      (''salinity'', float_or_none (s_salinity row)),
      (''float_id'', PyStr (s_float_id row))]"

text \<open>
  \<open>get_sample_data\<close>: the \<open>try\<close> block, whose value is the exception if one is raised,
  and the method with its \<open>except\<close> branch.
\<close>

definition get_sample_data_try :: "environment \<Rightarrow> AsyncSession \<Rightarrow> nat \<Rightarrow> py_error + py_dict list" where
  "get_sample_data_try env db limit =
     (case execute_sample db limit of
        Inl e \<Rightarrow> Inl e
      | Inr result_rows \<Rightarrow> Inr (map (sample_row_dict env) result_rows))"

definition get_sample_data ::
  "DataService \<Rightarrow> environment \<Rightarrow> AsyncSession \<Rightarrow> nat \<Rightarrow> py_error + py_dict list" where
  "get_sample_data self env db limit =
     (case get_sample_data_try env db limit of
        Inr result \<Rightarrow> Inr result
      | Inl e \<Rightarrow> Inr (generate_sample_data env))"

text \<open>\<open>execute_query\<close>, in the same two parts.\<close>

definition execute_query_try :: "DataService \<Rightarrow> string \<Rightarrow> AsyncSession \<Rightarrow> py_error + py_dict list" where
  "execute_query_try self sql_query db =
     (let sql_query' =
            (if \<not> py_in ''LIMIT'' (upper sql_query)
             then rstrip_semicolons sql_query @ '' LIMIT '' @ str_nat (max_query_results self) @ '';''
             else sql_query)
      in case execute_text db sql_query' of
           Inl e \<Rightarrow> Inl e
         | Inr (result_columns, result_rows) \<Rightarrow>
             Inr (if result_rows \<noteq> []
                  then map (\<lambda>row. dict_of_pairs (zip result_columns row)) result_rows
                  else []))"

definition DataService_execute_query ::
  "DataService \<Rightarrow> environment \<Rightarrow> string \<Rightarrow> AsyncSession \<Rightarrow> py_error + py_dict list" where
  "DataService_execute_query self env sql_query db =
     (case execute_query_try self sql_query db of
        Inr result \<Rightarrow> Inr result
      | Inl e \<Rightarrow> get_sample_data self env db 100)"

text \<open>
  A record of \<open>_generate_sample_data\<close> for index \<open>i\<close>, in words: the seven keys in the
  order of the source, numbers for the position, the depth, the temperature and the
  salinity, a text for the date, and the float id \<open>FLOAT_\<close> followed by \<open>1000 + i % 10\<close>.
\<close>

definition generated_record :: "nat \<Rightarrow> py_dict \<Rightarrow> bool" where
  "generated_record i r =
     (\<exists>la lo d dp t s.
        r = [(''latitude'', PyFloat la), (''longitude'', PyFloat lo), (''profile_date'', PyStr d),
             (''depth'', PyInt dp), (''temperature'', PyFloat t), (''salinity'', PyFloat s),
             (''float_id'', PyStr (''FLOAT_'' @ str_nat (1000 + i mod 10)))])"

section \<open>The platform's sample measurements (generate_sample_data.py)\<close>

text \<open>
  The body of the loop of \<open>generate_measurements\<close> for one depth. The \<open>random\<close> module
  is modelled like \<open>np.random\<close>: a stream of numbers in \<open>[0, 1)\<close>.
\<close>

definition generate_measurement :: "int \<Rightarrow> rng \<Rightarrow> py_dict \<times> rng" where
  "generate_measurement depth g =
     (case (if depth \<le> 50 then uniform 20 30 g
            else if depth \<le> 200 then uniform 10 20 g
            else if depth \<le> 1000 then uniform 4 12 g
            else uniform 1 5 g) of (temperature, g1) \<Rightarrow>
      case (if depth \<le> 100 then uniform 34.5 36.5 g1
            else uniform 34.0 35.0 g1) of (salinity, g2) \<Rightarrow>
      case (if depth \<le> 100 then uniform 200 300 g2
            else if depth \<le> 500 then uniform 100 200 g2
            else uniform 150 250 g2) of (oxygen, g3) \<Rightarrow>
      case choice [''1'', ''1'', ''1'', ''2'', ''3''] g3 of (quality_flag, g4) \<Rightarrow>
        ([(''depth'', PyInt depth),
          (''pressure'', PyFloat (of_int depth * 1.02)),
          (''temperature'', PyFloat (round_to 2 temperature)),
          (''salinity'', PyFloat (round_to 2 salinity)),
          (''oxygen'', PyFloat (round_to 1 oxygen)),
          (''quality_flag'', PyStr quality_flag)],
         g4))"

fun measurements_loop :: "int list \<Rightarrow> rng \<Rightarrow> py_dict list \<Rightarrow> py_dict list \<times> rng" where
  "measurements_loop [] g measurements = (measurements, g)"
| "measurements_loop (depth # depths) g measurements =
     (case generate_measurement depth g of
        (measurement, g') \<Rightarrow> measurements_loop depths g' (measurements @ [measurement]))"

definition generate_measurements :: "rng \<Rightarrow> py_dict list" where
  "generate_measurements g =
     (let depths = [0, 10, 20, 30, 50, 75, 100, 125, 150, 200, 250, 300, 400, 500, 600, 750,
                    1000, 1250, 1500, 1750, 2000]
      in fst (measurements_loop depths g []))"

section \<open>Properties of the query translation\<close>

lemma py_in_iff_sublist: "py_in k s \<longleftrightarrow> sublist k s"
  by (induction s) (auto simp: sublist_Cons_right)

lemma scan_keywords_eq:
  "scan_keywords ks tmpl q = (if keyword_occurs ks q then Some tmpl else None)"
  by (induction ks) (auto simp: keyword_occurs_def py_in_iff_sublist)

lemma scan_patterns_eq:
  "scan_patterns ps q =
     map_option (\<lambda>p. sql_template (snd p)) (find (\<lambda>p. keyword_occurs (keywords_of (snd p)) q) ps)"
  by (induction ps q rule: scan_patterns.induct) (simp_all add: scan_keywords_eq)

lemma any_word_in_eq: "any_word_in ws q = keyword_occurs ws q"
  by (induction ws) (auto simp: keyword_occurs_def py_in_iff_sublist)

lemma parse_query_eq:
  "parse_query self q =
     (case re_search_float (lower q) of
        Some d \<Rightarrow> ''SELECT * FROM argo_data WHERE float_id = '' @ d
      | None \<Rightarrow>
          (case first_pattern self (lower q) of
             Some info \<Rightarrow> sql_template info
           | None \<Rightarrow> ''SELECT * FROM argo_data LIMIT 10''))"
  by (simp add: parse_query_def first_pattern_def scan_patterns_eq option.map_comp comp_def
        split: option.splits)

lemma keyword_occurs_Nil: "keyword_occurs [] l = False"
  by (simp add: keyword_occurs_def)

lemma keyword_occurs_Cons: "keyword_occurs (k # ks) l = (py_in k l \<or> keyword_occurs ks l)"
  by (simp add: keyword_occurs_def py_in_iff_sublist)

lemmas process_query_defs =
  process_natural_language_query_def first_branch_def branch_sql_def query_branches_def
  any_word_in_eq Let_def keyword_occurs_Nil keyword_occurs_Cons

lemma process_query_branch:
  "fst (process_natural_language_query q) =
     (case first_branch (lower q) of
        Some b \<Rightarrow> branch_sql b (lower q)
      | None \<Rightarrow> ''SELECT * FROM argo_floats LIMIT 8'')"
  apply (cases "keyword_occurs (fst (query_branches ! 0)) (lower q)")
   apply (simp add: process_query_defs)
  apply (cases "keyword_occurs (fst (query_branches ! 1)) (lower q)")
   apply (simp add: process_query_defs)
  apply (cases "keyword_occurs (fst (query_branches ! 2)) (lower q)")
   apply (simp add: process_query_defs)
  apply (cases "keyword_occurs (fst (query_branches ! 3)) (lower q)")
   apply (simp add: process_query_defs)
  apply (cases "keyword_occurs (fst (query_branches ! 4)) (lower q)")
   apply (simp add: process_query_defs)
  apply (cases "keyword_occurs (fst (query_branches ! 5)) (lower q)")
   apply (simp add: process_query_defs)
  apply (cases "keyword_occurs (fst (query_branches ! 6)) (lower q)")
   apply (simp add: process_query_defs)
  apply (cases "keyword_occurs (fst (query_branches ! 7)) (lower q)")
   apply (simp add: process_query_defs)
  apply (cases "keyword_occurs (fst (query_branches ! 8)) (lower q)")
   apply (simp add: process_query_defs)
  apply (simp add: process_query_defs)
  done

text \<open>
  C1. Read as it stands, the claim says: for every query, the returned SQL is the template
  of the first pattern, in declaration order, one of whose keywords occurs in the
  lowercased query. In the demo parser the first query below names the keyword
  \<open>salinity\<close> of the first pattern and a float number: the search for
  \<open>float\s+(\d+)\<close> runs before the patterns and decides. In the prototype the other two
  queries reach the same first branch and get different SQL: a branch has no single
  template.
\<close>

theorem translation_first_match_counterexample:
  "first_pattern NaturalLanguageParser_init (lower ''Salinity of float 7'') =
       Some (snd (patterns NaturalLanguageParser_init ! 0))
   \<and> parse_query NaturalLanguageParser_init ''Salinity of float 7'' =
       ''SELECT * FROM argo_data WHERE float_id = 7''
   \<and> parse_query NaturalLanguageParser_init ''Salinity of float 7'' \<noteq>
       sql_template (snd (patterns NaturalLanguageParser_init ! 0))
   \<and> first_branch (lower ''highest temperature'') = Some (query_branches ! 0)
   \<and> first_branch (lower ''lowest temperature'') = Some (query_branches ! 0)
   \<and> fst (process_natural_language_query ''highest temperature'') \<noteq>
       fst (process_natural_language_query ''lowest temperature'')"
  by code_simp

text \<open>
  C1, amended. In the demo parser a query whose lowercased text matches
  \<open>float\s+(\d+)\<close> gets the float-id query built from the digits; every other query gets
  the template of the first pattern, in declaration order, one of whose keywords occurs
  in the lowercased query, and the fallback query when no keyword occurs. In the
  prototype backend the first branch, in the order of the source, one of whose keywords
  occurs in the lowercased query is taken; the SQL is the string of the first secondary
  test of that branch, in order, one of whose keywords occurs, the string of the branch's
  \<open>else\<close> when none does, and the fallback query when no branch keyword occurs.
\<close>

theorem translation_first_match:
  "parse_query self q =
     (case re_search_float (lower q) of
        Some d \<Rightarrow> ''SELECT * FROM argo_data WHERE float_id = '' @ d
      | None \<Rightarrow>
          (case first_pattern self (lower q) of
             Some info \<Rightarrow> sql_template info
           | None \<Rightarrow> ''SELECT * FROM argo_data LIMIT 10''))
   \<and> fst (process_natural_language_query q) =
         (case first_branch (lower q) of
            Some b \<Rightarrow> branch_sql b (lower q)
          | None \<Rightarrow> ''SELECT * FROM argo_floats LIMIT 8'')"
proof
  show "parse_query self q =
     (case re_search_float (lower q) of
        Some d \<Rightarrow> ''SELECT * FROM argo_data WHERE float_id = '' @ d
      | None \<Rightarrow>
          (case first_pattern self (lower q) of
             Some info \<Rightarrow> sql_template info
           | None \<Rightarrow> ''SELECT * FROM argo_data LIMIT 10''))"
    by (rule parse_query_eq)
next
  show "fst (process_natural_language_query q) =
         (case first_branch (lower q) of
            Some b \<Rightarrow> branch_sql b (lower q)
          | None \<Rightarrow> ''SELECT * FROM argo_floats LIMIT 8'')"
    by (rule process_query_branch)
qed

theorem translation_first_match_witness:
  "re_search_float (lower ''Show DEEP salinity'') = None
   \<and> first_pattern NaturalLanguageParser_init (lower ''Show DEEP salinity'') =
       Some (snd (patterns NaturalLanguageParser_init ! 0))
   \<and> parse_query NaturalLanguageParser_init ''Show DEEP salinity'' =
       ''SELECT * FROM argo_data WHERE lat BETWEEN -5 AND 5 AND time LIKE '%2023-03%'' @ [CHR 0x27]
   \<and> first_branch (lower ''Lowest salinity at high depth'') = Some (query_branches ! 1)
   \<and> branch_sql (query_branches ! 1) (lower ''Lowest salinity at high depth'') =
       ''SELECT * FROM argo_profiles WHERE salinity IS NOT NULL ORDER BY salinity DESC LIMIT 10''
   \<and> fst (process_natural_language_query ''Lowest salinity at high depth'') =
       ''SELECT * FROM argo_profiles WHERE salinity IS NOT NULL ORDER BY salinity DESC LIMIT 10''"
proof -
  have a: "re_search_float (lower ''Show DEEP salinity'') = None"
    by code_simp
  have b: "first_pattern NaturalLanguageParser_init (lower ''Show DEEP salinity'') =
       Some (snd (patterns NaturalLanguageParser_init ! 0))"
    by code_simp
  have c: "sql_template (snd (patterns NaturalLanguageParser_init ! 0)) =
       ''SELECT * FROM argo_data WHERE lat BETWEEN -5 AND 5 AND time LIKE '%2023-03%'' @ [CHR 0x27]"
    by code_simp
  have d: "first_branch (lower ''Lowest salinity at high depth'') = Some (query_branches ! 1)"
    by code_simp
  have e: "branch_sql (query_branches ! 1) (lower ''Lowest salinity at high depth'') =
       ''SELECT * FROM argo_profiles WHERE salinity IS NOT NULL ORDER BY salinity DESC LIMIT 10''"
    by code_simp
  from translation_first_match [of NaturalLanguageParser_init "''Show DEEP salinity''"]
    translation_first_match [of NaturalLanguageParser_init "''Lowest salinity at high depth''"]
    a b c d e
  show ?thesis by simp
qed

lemma float_match_at_digits: "float_match_at s = Some d \<Longrightarrow> \<forall>c\<in>set d. py_isdigit c"
  by (auto simp: float_match_at_def Let_def split: if_splits dest: set_takeWhileD)

lemma re_search_float_digits: "re_search_float s = Some d \<Longrightarrow> \<forall>c\<in>set d. py_isdigit c"
  by (induction s) (auto split: option.splits dest: float_match_at_digits)

lemma scan_patterns_mem:
  "scan_patterns ps q = Some sql \<Longrightarrow> sql \<in> set (map (\<lambda>p. sql_template (snd p)) ps)"
  by (induction ps q rule: scan_patterns.induct)
     (auto simp: scan_keywords_eq split: option.splits if_splits)

lemma init_templates_select:
  "sql \<in> set (map (\<lambda>p. sql_template (snd p)) (patterns NaturalLanguageParser_init))
   \<Longrightarrow> is_select_statement sql"
  by (auto simp: NaturalLanguageParser_init_def is_select_statement_def)

lemma float_id_query_select:
  assumes "\<forall>c\<in>set d. py_isdigit c"
  shows "is_select_statement (''SELECT * FROM argo_data WHERE float_id = '' @ d)"
proof -
  have "CHR '';'' \<notin> set d"
    using assms by (auto simp: py_isdigit_def)
  then show ?thesis by (simp add: is_select_statement_def)
qed

lemma parse_query_select: "is_select_statement (parse_query NaturalLanguageParser_init q)"
proof (cases "re_search_float (lower q)")
  case (Some d)
  have "is_select_statement (''SELECT * FROM argo_data WHERE float_id = '' @ d)"
    by (rule float_id_query_select) (rule re_search_float_digits [OF Some])
  with Some show ?thesis
    by (simp add: parse_query_def)
next
  case None
  show ?thesis
  proof (cases "scan_patterns (patterns NaturalLanguageParser_init) (lower q)")
    case (Some sql)
    with None show ?thesis
      by (simp add: parse_query_def init_templates_select [OF scan_patterns_mem])
  next
    case n: None
    with None show ?thesis
      by (simp add: parse_query_def is_select_statement_def)
  qed
qed

text \<open>
  C8. Every SQL string the demo parser returns is a SELECT statement, so on an engine
  that leaves the table alone on SELECT statements the contents of \<open>argo_data\<close> are the
  same after the query as before.
\<close>

theorem demo_table_unchanged:
  assumes "select_preserving engine"
  shows "is_select_statement (parse_query NaturalLanguageParser_init q)
         \<and> conn (snd (ARGODataManager_execute_query engine dm
                        (parse_query NaturalLanguageParser_init q))) = conn dm"
proof -
  have s: "is_select_statement (parse_query NaturalLanguageParser_init q)"
    by (rule parse_query_select)
  with assms have "snd (engine (parse_query NaturalLanguageParser_init q) (conn dm)) = conn dm"
    by (simp add: select_preserving_def)
  then have "conn (snd (ARGODataManager_execute_query engine dm
                        (parse_query NaturalLanguageParser_init q))) = conn dm"
    by (auto simp: ARGODataManager_execute_query_def split: prod.splits sum.splits)
  with s show ?thesis by simp
qed

theorem demo_table_unchanged_witness:
  "select_preserving
     (\<lambda>sql table. if is_select_statement sql then (Inr table, table)
                   else (Inl ''error'', \<lparr>columns = [], rows = []\<rparr>))
   \<and> parse_query NaturalLanguageParser_init ''show float 1001'' =
       ''SELECT * FROM argo_data WHERE float_id = 1001''
   \<and> is_select_statement (parse_query NaturalLanguageParser_init ''show float 1001'')
   \<and> conn (snd (ARGODataManager_execute_query
        (\<lambda>sql table. if is_select_statement sql then (Inr table, table)
                      else (Inl ''error'', \<lparr>columns = [], rows = []\<rparr>))
        \<lparr>conn = \<lparr>columns = [''float_id''], rows = [[PyInt 1001]]\<rparr>\<rparr>
        (parse_query NaturalLanguageParser_init ''show float 1001'')))
      = \<lparr>columns = [''float_id''], rows = [[PyInt 1001]]\<rparr>"
proof -
  have p: "select_preserving
     (\<lambda>sql table. if is_select_statement sql then (Inr table, table)
                   else (Inl ''error'', \<lparr>columns = [], rows = []\<rparr>))"
    by (simp add: select_preserving_def)
  have e: "parse_query NaturalLanguageParser_init ''show float 1001'' =
       ''SELECT * FROM argo_data WHERE float_id = 1001''"
    by code_simp
  from demo_table_unchanged [OF p, of "''show float 1001''"
       "\<lparr>conn = \<lparr>columns = [''float_id''], rows = [[PyInt 1001]]\<rparr>\<rparr>"] p e
  show ?thesis by simp
qed

section \<open>Properties of the chat handler\<close>

text \<open>
  C4. Read as it stands, the claim says: whenever the execution of the query yields an
  empty or absent dataframe, the handler answers with a "no data" message. The dataframe
  is absent exactly when \<open>execute_query\<close> caught an exception, and then the error branch
  comes first. The query below reaches it: the keyword \<open>float\<close> without a number selects
  the template whose placeholder was never filled in, which SQLite rejects.
\<close>

theorem empty_result_counterexample:
  "parse_query NaturalLanguageParser_init ''show float data'' =
     ''SELECT * FROM argo_data WHERE float_id = {float_id}''
   \<and> none_or_empty (fst (None, Some ''unrecognized token: {''))
   \<and> msg_content (chat_response (\<lambda>d. []) ''show float data'' (None, Some ''unrecognized token: {''))
       = ''Sorry, there was an error processing your query: unrecognized token: {''
   \<and> msg_content (chat_response (\<lambda>d. []) ''show float data'' (None, Some ''unrecognized token: {''))
       \<noteq> ''No data found matching your criteria.''
   \<and> msg_content (chat_response (\<lambda>d. []) ''show float data'' (None, Some ''unrecognized token: {''))
       \<noteq> ''No data found for your query.''"
  by code_simp

text \<open>
  C4, amended. For every query whose execution reports no error (the error is \<open>None\<close> or
  the empty string) and yields an empty or absent dataframe, the handler appends the
  message "No data found matching your criteria." with no data attached; and
  \<open>generate_ai_summary\<close> returns "No data found for your query." for every empty or
  absent dataframe. Both are values of total functions: nothing is raised.
\<close>

theorem empty_result_no_data:
  assumes "\<not> truthy error" and "none_or_empty df"
  shows "chat_response column_parts prompt (df, error) =
           \<lparr> msg_role = ''assistant'', msg_content = ''No data found matching your criteria.'',
             msg_data = None \<rparr>
         \<and> generate_ai_summary column_parts df prompt = ''No data found for your query.''"
  using assms
  by (simp add: chat_response_def generate_ai_summary_def none_or_empty_def
        split: option.splits)

theorem empty_result_no_data_witness:
  "\<not> truthy None
   \<and> none_or_empty (Some \<lparr>columns = [''depth'', ''avg_temperature''], rows = []\<rparr>)
   \<and> chat_response (\<lambda>d. []) ''temperature by depth''
         (Some \<lparr>columns = [''depth'', ''avg_temperature''], rows = []\<rparr>, None) =
           \<lparr> msg_role = ''assistant'', msg_content = ''No data found matching your criteria.'',
             msg_data = None \<rparr>
   \<and> generate_ai_summary (\<lambda>d. [])
         (Some \<lparr>columns = [''depth'', ''avg_temperature''], rows = []\<rparr>) ''temperature by depth''
         = ''No data found for your query.''"
proof -
  have a: "\<not> truthy None"
    by (simp add: truthy_def)
  have b: "none_or_empty (Some \<lparr>columns = [''depth'', ''avg_temperature''], rows = []\<rparr>)"
    by (simp add: none_or_empty_def df_empty_def)
  from empty_result_no_data [OF a b, of "\<lambda>d. []" "''temperature by depth''"] a b
  show ?thesis by simp
qed

section \<open>Properties of the login endpoint\<close>

text \<open>
  On a credentials dictionary whose \<open>email\<close> is absent or a string the endpoint answers as
  described: it never rejects, the role follows from the substrings of the email, and the
  token is "demo_token_" followed by the role.
\<close>

lemma login_string_email:
  assumes "credentials ''email'' = None \<or> credentials ''email'' = Some (JStr e)"
  shows "\<exists>r. login credentials = Inr r
             \<and> user_role (user r) = role_of_email (if credentials ''email'' = None then [] else e)
             \<and> access_token r = ''demo_token_'' @ user_role (user r)
             \<and> user_email (user r) = (if credentials ''email'' = None then [] else e)"
proof -
  let ?e = "if credentials ''email'' = None then [] else e"
  have em: "(case credentials ''email'' of Some v \<Rightarrow> v | None \<Rightarrow> JStr []) = JStr ?e"
    using assms by auto
  show ?thesis
    unfolding login_def Let_def em
    by (simp add: json_contains_def make_login_response_def role_of_email_def
          py_in_iff_sublist split: bool.splits)
qed

text \<open>
  C10. The endpoint is said never to reject: for every credentials dictionary it returns
  a successful response. The handler is written for that ("accepts any credentials for
  demo", and a missing email counts as the empty string), but it misses the dictionaries
  whose \<open>email\<close> is not a string: on a number or \<open>null\<close> the test
  \<open>"scientist" in email\<close> raises a \<open>TypeError\<close>, and a list fails the \<open>User\<close> model,
  so no response is returned.
\<close>

theorem login_non_string_email:
  "login [''email'' \<mapsto> JNum 5, ''password'' \<mapsto> JStr ''x''] = Inl TypeError
   \<and> login [''email'' \<mapsto> JNull] = Inl TypeError
   \<and> login [''email'' \<mapsto> JArr [JStr ''scientist'']] = Inl ValidationError
   \<and> (\<exists>r. login [''password'' \<mapsto> JStr ''x''] = Inr r)"
  by (simp add: login_def json_contains_def make_login_response_def)

section \<open>Properties of the severity labels\<close>

text \<open>
  C3. The severity function is monotonic in the deviation: for a fixed standard deviation
  and deviations \<open>d1 \<ge> d2 \<ge> 0\<close>, the tier of \<open>d1\<close> is at least the tier of \<open>d2\<close> in the
  ordering low < medium < high < extreme.
\<close>

theorem calculate_severity_mono:
  assumes "d2 \<le> d1" and "0 \<le> d2"
  shows "severity_tier (calculate_severity d2 s) \<le> severity_tier (calculate_severity d1 s)"
  using assms by (simp add: calculate_severity_def severity_tier_def)

theorem calculate_severity_mono_witness:
  "(5::real) \<le> 7 \<and> (0::real) \<le> 5
   \<and> calculate_severity 5 2 = ''high'' \<and> calculate_severity 7 2 = ''extreme''
   \<and> severity_tier (calculate_severity 5 2) \<le> severity_tier (calculate_severity 7 2)"
  using calculate_severity_mono [of 5 7 2]
  by (simp add: calculate_severity_def)

section \<open>Properties of the anomaly detectors\<close>

lemma map_of_group_insert:
  "map_of (group_insert key m gs) =
     (map_of gs)(key \<mapsto> (case map_of gs key of None \<Rightarrow> [m] | Some g \<Rightarrow> g @ [m]))"
  by (induction key m gs rule: group_insert.induct) (auto simp: fun_eq_iff)

lemma keys_group_insert:
  "map fst (group_insert key m gs) =
     (if key \<in> set (map fst gs) then map fst gs else map fst gs @ [key])"
  by (induction key m gs rule: group_insert.induct) auto

lemma cell_members_snoc:
  "cell_members (ms @ [m]) k = cell_members ms k @ (if cell_of m = k then [m] else [])"
  by (simp add: cell_members_def)

lemma grouped_Nil: "grouped [] []"
  by (simp add: grouped_def)

lemma grouped_insert:
  assumes "grouped ms gs"
  shows "grouped (ms @ [m]) (group_insert (cell_of m) m gs)"
proof -
  from assms have d: "distinct (map fst gs)"
    unfolding grouped_def by (rule conjunct1)
  from assms have "\<forall>k. map_of gs k = (if k \<in> cell_of ` set ms then Some (cell_members ms k) else None)"
    unfolding grouped_def by (rule conjunct2)
  then have l: "map_of gs k = (if k \<in> cell_of ` set ms then Some (cell_members ms k) else None)" for k
    by (rule spec)
  have keys: "set (map fst gs) = cell_of ` set ms"
  proof -
    have "dom (map_of gs) = cell_of ` set ms"
      by (auto simp: l dom_def)
    then show ?thesis by (simp add: dom_map_of_conv_image_fst)
  qed
  have d': "distinct (map fst (group_insert (cell_of m) m gs))"
    using d by (simp add: keys_group_insert)
  have l': "map_of (group_insert (cell_of m) m gs) k =
      (if k \<in> cell_of ` set (ms @ [m]) then Some (cell_members (ms @ [m]) k) else None)" for k
    by (auto simp: map_of_group_insert l cell_members_snoc cell_members_def filter_empty_conv image_iff)
  from d' l' show ?thesis
    unfolding grouped_def by blast
qed

lemma grouped_loop:
  "grouped ms gs \<Longrightarrow> grouped (ms @ ms') (group_by_location ms' gs)"
proof (induction ms' arbitrary: ms gs)
  case Nil
  then show ?case by simp
next
  case (Cons m ms')
  have "grouped (ms @ [m]) (group_insert (cell_of m) m gs)"
    by (rule grouped_insert [OF Cons.prems])
  from Cons.IH [OF this] show ?case
    by (simp add: cell_of_def Let_def)
qed

lemma grouped_group_by_location: "grouped ms (group_by_location ms [])"
  using grouped_loop [OF grouped_Nil, of ms] by simp

lemma grouped_mem:
  assumes "grouped ms gs"
  shows "(k, g) \<in> set gs \<longleftrightarrow> k \<in> cell_of ` set ms \<and> g = cell_members ms k"
proof -
  from assms have d: "distinct (map fst gs)"
    unfolding grouped_def by (rule conjunct1)
  from assms have "\<forall>k. map_of gs k = (if k \<in> cell_of ` set ms then Some (cell_members ms k) else None)"
    unfolding grouped_def by (rule conjunct2)
  then have l: "map_of gs k = (if k \<in> cell_of ` set ms then Some (cell_members ms k) else None)" for k
    by (rule spec)
  have "(k, g) \<in> set gs \<longleftrightarrow> map_of gs k = Some g"
    by (rule map_of_eq_Some_iff [OF d, symmetric])
  also have "\<dots> \<longleftrightarrow> k \<in> cell_of ` set ms \<and> g = cell_members ms k"
    by (auto simp: l)
  finally show ?thesis .
qed

lemma check_temperature_groups_labels:
  "map (\<lambda>a. (anomaly_cell a, severity a)) (check_temperature_groups mu sd gs) =
     map (group_label mu sd) (filter (exceeds 2 mu sd) gs)"
  by (induction mu sd gs rule: check_temperature_groups.induct)
     (simp_all add: Let_def exceeds_def group_label_def anomaly_cell_def)

lemma check_salinity_groups_labels:
  "map (\<lambda>a. (anomaly_cell a, severity a)) (check_salinity_groups mu sd gs) =
     map (group_label mu sd) (filter (exceeds 1.5 mu sd) gs)"
  by (induction mu sd gs rule: check_salinity_groups.induct)
     (simp_all add: Let_def exceeds_def group_label_def anomaly_cell_def)

lemma emitted_exactlyI:
  assumes g: "grouped ms gs"
    and lab: "map (\<lambda>a. (anomaly_cell a, severity a)) as =
                map (group_label (np_mean (map m_value ms)) (np_std (map m_value ms)))
                  (filter (exceeds factor (np_mean (map m_value ms)) (np_std (map m_value ms))) gs)"
  shows "emitted_exactly factor ms as"
proof -
  let ?mu = "np_mean (map m_value ms)" and ?sd = "np_std (map m_value ms)"
  let ?fl = "filter (exceeds factor ?mu ?sd) gs"
  have cells: "map anomaly_cell as = map fst ?fl"
  proof -
    have "map fst (map (\<lambda>a. (anomaly_cell a, severity a)) as) = map fst (map (group_label ?mu ?sd) ?fl)"
      by (simp only: lab)
    then show ?thesis by (simp add: comp_def group_label_def)
  qed
  have dist: "distinct (map anomaly_cell as)"
    using g by (simp add: cells grouped_def distinct_map_filter)
  have flag: "set (map anomaly_cell as) = {c. flagged factor ms c}"
  proof -
    have "c \<in> set (map fst ?fl) \<longleftrightarrow> flagged factor ms c" for c
    proof -
      have "c \<in> set (map fst ?fl) \<longleftrightarrow> (\<exists>grp. (c, grp) \<in> set gs \<and> exceeds factor ?mu ?sd (c, grp))"
        by force
      also have "\<dots> \<longleftrightarrow> (c \<in> cell_of ` set ms \<and> exceeds factor ?mu ?sd (c, cell_members ms c))"
        by (auto simp: grouped_mem [OF g])
      also have "\<dots> \<longleftrightarrow> flagged factor ms c"
        by (simp add: flagged_def exceeds_def cell_deviation_def cell_mean_def)
      finally show ?thesis .
    qed
    then show ?thesis by (auto simp: cells)
  qed
  have sev: "severity a = calculate_severity (cell_deviation ms (anomaly_cell a)) ?sd"
    if "a \<in> set as" for a
  proof -
    from that have "(anomaly_cell a, severity a) \<in> set (map (\<lambda>a. (anomaly_cell a, severity a)) as)"
      by force
    then have "(anomaly_cell a, severity a) \<in> set (map (group_label ?mu ?sd) ?fl)"
      by (simp only: lab)
    then obtain k grp where kg: "(k, grp) \<in> set gs"
      and eq: "(anomaly_cell a, severity a) = group_label ?mu ?sd (k, grp)"
      by auto
    from kg have "grp = cell_members ms k"
      by (simp add: grouped_mem [OF g])
    with eq show ?thesis
      by (simp add: group_label_def cell_deviation_def cell_mean_def)
  qed
  from dist flag sev show ?thesis
    unfolding emitted_exactly_def by blast
qed

lemma temperature_detector_exact:
  assumes "10 \<le> length (recent_surface_temperatures since table)"
  shows "emitted_exactly 2 (recent_surface_temperatures since table)
           (detect_temperature_anomalies (Inr table) since)"
proof -
  let ?ms = "recent_surface_temperatures since table"
  have "detect_temperature_anomalies (Inr table) since =
          check_temperature_groups (np_mean (map m_value ?ms)) (np_std (map m_value ?ms))
            (group_by_location ?ms [])"
    using assms by (simp add: detect_temperature_anomalies_def Let_def)
  moreover have "emitted_exactly 2 ?ms
      (check_temperature_groups (np_mean (map m_value ?ms)) (np_std (map m_value ?ms))
         (group_by_location ?ms []))"
    by (rule emitted_exactlyI [OF grouped_group_by_location check_temperature_groups_labels])
  ultimately show ?thesis by (simp only:)
qed

lemma salinity_detector_exact:
  assumes "10 \<le> length (recent_surface_salinities since table)"
  shows "emitted_exactly 1.5 (recent_surface_salinities since table)
           (detect_salinity_anomalies (Inr table) since)"
proof -
  let ?ms = "recent_surface_salinities since table"
  have "detect_salinity_anomalies (Inr table) since =
          check_salinity_groups (np_mean (map m_value ?ms)) (np_std (map m_value ?ms))
            (group_by_location ?ms [])"
    using assms by (simp add: detect_salinity_anomalies_def Let_def)
  moreover have "emitted_exactly 1.5 ?ms
      (check_salinity_groups (np_mean (map m_value ?ms)) (np_std (map m_value ?ms))
         (group_by_location ?ms []))"
    by (rule emitted_exactlyI [OF grouped_group_by_location check_salinity_groups_labels])
  ultimately show ?thesis by (simp only:)
qed

text \<open>The detectors on the example inputs.\<close>

lemma sqrt_nine: "sqrt 9 = 3"
  using real_sqrt_abs [of 3] by simp

lemmas eval_rows =
  recent_surface_temperatures_def recent_surface_salinities_def select_measurement_def
  List.map_filter_simps surface_row_def np_mean_def np_std_def py_round_def Let_def
  calculate_severity_def min_date_def max_date_def

lemma ten_rows_temperatures:
  "recent_surface_temperatures 0 ten_rows =
     replicate 9 \<lparr> m_latitude = 0.2, m_longitude = 0.3, m_profile_date = 100, m_value = 20, m_depth = 5 \<rparr>
     @ [\<lparr> m_latitude = 5.4, m_longitude = 4.6, m_profile_date = 101, m_value = 30, m_depth = 5 \<rparr>]"
  by (simp add: ten_rows_def eval_rows numeral_eq_Suc)

lemma ten_rows_salinities:
  "recent_surface_salinities 0 ten_rows =
     replicate 9 \<lparr> m_latitude = 0.2, m_longitude = 0.3, m_profile_date = 100, m_value = 35, m_depth = 5 \<rparr>
     @ [\<lparr> m_latitude = 5.4, m_longitude = 4.6, m_profile_date = 101, m_value = 45, m_depth = 5 \<rparr>]"
  by (simp add: ten_rows_def eval_rows numeral_eq_Suc)

lemma ten_rows_temperature_anomalies:
  "detect_temperature_anomalies (Inr ten_rows) 0 =
     [\<lparr> anomaly_type = ''heatwave'', severity = ''high'', start_date = 101, end_date = 101,
        a_latitude = 5, a_longitude = 5, confidence_score = 0.95, data_source = ''ARGO'' \<rparr>]"
  by (simp add: detect_temperature_anomalies_def ten_rows_temperatures)
     (simp add: eval_rows numeral_eq_Suc sqrt_nine)

lemma ten_rows_salinity_anomalies:
  "detect_salinity_anomalies (Inr ten_rows) 0 =
     [\<lparr> anomaly_type = ''high_salinity'', severity = ''high'', start_date = 101, end_date = 101,
        a_latitude = 5, a_longitude = 5, confidence_score = 0.95, data_source = ''ARGO'' \<rparr>]"
  by (simp add: detect_salinity_anomalies_def ten_rows_salinities)
     (simp add: eval_rows numeral_eq_Suc sqrt_nine)

lemma five_rows_salinities:
  "recent_surface_salinities 0 five_rows =
     replicate 4 \<lparr> m_latitude = 0.2, m_longitude = 0.3, m_profile_date = 100, m_value = 35, m_depth = 5 \<rparr>
     @ [\<lparr> m_latitude = 10.4, m_longitude = 9.6, m_profile_date = 101, m_value = 40, m_depth = 5 \<rparr>]"
  by (simp add: five_rows_def eval_rows numeral_eq_Suc)

text \<open>
  C2. Read as it stands, the claim says: run over the recent surface measurements, a
  detector emits an anomaly exactly for each one-degree cell whose mean deviates from the
  global mean by more than the detector's multiple of the standard deviation. With fewer
  than ten measurements the detectors return nothing, whatever the cells look like: here
  five measurements, the cell (10, 10) two standard deviations away, and no anomaly.
\<close>

theorem anomaly_detectors_counterexample:
  "length (recent_surface_salinities 0 five_rows) = 5
   \<and> flagged 1.5 (recent_surface_salinities 0 five_rows) (10, 10)
   \<and> detect_salinity_anomalies (Inr five_rows) 0 = []
   \<and> \<not> emitted_exactly 1.5 (recent_surface_salinities 0 five_rows)
         (detect_salinity_anomalies (Inr five_rows) 0)"
proof -
  have a: "length (recent_surface_salinities 0 five_rows) = 5"
    by (simp add: five_rows_salinities)
  have b: "flagged 1.5 (recent_surface_salinities 0 five_rows) (10, 10)"
    unfolding five_rows_salinities
    by (simp add: flagged_def cell_deviation_def cell_mean_def cell_members_def cell_of_def
          np_mean_def np_std_def py_round_def Let_def numeral_eq_Suc)
  have c: "detect_salinity_anomalies (Inr five_rows) 0 = []"
    by (simp add: detect_salinity_anomalies_def a)
  have d: "\<not> emitted_exactly 1.5 (recent_surface_salinities 0 five_rows)
         (detect_salinity_anomalies (Inr five_rows) 0)"
    using b unfolding c emitted_exactly_def by auto
  from a b c d show ?thesis by blast
qed

text \<open>
  C2, amended. Run over at least ten recent surface measurements of its variable, a
  detector groups them into one-degree cells by rounding latitude and longitude, takes the
  global mean and standard deviation over all of them, and emits exactly one anomaly for
  each cell whose mean deviates from the global mean by more than 2 (temperature) or 1.5
  (salinity) standard deviations, and none for any other cell; the anomaly's severity is
  the label of that deviation. Run over fewer than ten, it emits nothing.
\<close>

theorem anomaly_detectors_exact:
  "(length (recent_surface_temperatures since table) < 10
      \<longrightarrow> detect_temperature_anomalies (Inr table) since = [])
   \<and> (10 \<le> length (recent_surface_temperatures since table)
      \<longrightarrow> emitted_exactly 2 (recent_surface_temperatures since table)
            (detect_temperature_anomalies (Inr table) since))
   \<and> (length (recent_surface_salinities since table) < 10
      \<longrightarrow> detect_salinity_anomalies (Inr table) since = [])
   \<and> (10 \<le> length (recent_surface_salinities since table)
      \<longrightarrow> emitted_exactly 1.5 (recent_surface_salinities since table)
            (detect_salinity_anomalies (Inr table) since))"
proof (intro conjI impI)
  assume "length (recent_surface_temperatures since table) < 10"
  then show "detect_temperature_anomalies (Inr table) since = []"
    by (simp add: detect_temperature_anomalies_def)
next
  assume "10 \<le> length (recent_surface_temperatures since table)"
  then show "emitted_exactly 2 (recent_surface_temperatures since table)
            (detect_temperature_anomalies (Inr table) since)"
    by (rule temperature_detector_exact)
next
  assume "length (recent_surface_salinities since table) < 10"
  then show "detect_salinity_anomalies (Inr table) since = []"
    by (simp add: detect_salinity_anomalies_def)
next
  assume "10 \<le> length (recent_surface_salinities since table)"
  then show "emitted_exactly 1.5 (recent_surface_salinities since table)
            (detect_salinity_anomalies (Inr table) since)"
    by (rule salinity_detector_exact)
qed

theorem anomaly_detectors_exact_witness:
  "10 \<le> length (recent_surface_temperatures 0 ten_rows)
   \<and> 10 \<le> length (recent_surface_salinities 0 ten_rows)
   \<and> detect_temperature_anomalies (Inr ten_rows) 0 =
       [\<lparr> anomaly_type = ''heatwave'', severity = ''high'', start_date = 101, end_date = 101,
          a_latitude = 5, a_longitude = 5, confidence_score = 0.95, data_source = ''ARGO'' \<rparr>]
   \<and> emitted_exactly 2 (recent_surface_temperatures 0 ten_rows)
         (detect_temperature_anomalies (Inr ten_rows) 0)
   \<and> emitted_exactly 1.5 (recent_surface_salinities 0 ten_rows)
         (detect_salinity_anomalies (Inr ten_rows) 0)
   \<and> length (recent_surface_salinities 0 five_rows) < 10
   \<and> detect_salinity_anomalies (Inr five_rows) 0 = []"
proof -
  have a: "10 \<le> length (recent_surface_temperatures 0 ten_rows)"
    by (simp add: ten_rows_temperatures)
  have b: "10 \<le> length (recent_surface_salinities 0 ten_rows)"
    by (simp add: ten_rows_salinities)
  have c: "length (recent_surface_salinities 0 five_rows) < 10"
    by (simp add: five_rows_salinities)
  from anomaly_detectors_exact [of 0 ten_rows] anomaly_detectors_exact [of 0 five_rows]
    a b c ten_rows_temperature_anomalies
  show ?thesis by simp
qed

text \<open>Every anomaly a detector emits passed that detector's own threshold.\<close>

lemma check_temperature_groups_severity:
  "a \<in> set (check_temperature_groups mu sd gs) \<Longrightarrow> severity a = ''high'' \<or> severity a = ''extreme''"
  by (induction mu sd gs rule: check_temperature_groups.induct)
     (auto simp: Let_def calculate_severity_def split: if_splits)

lemma check_salinity_groups_severity:
  "a \<in> set (check_salinity_groups mu sd gs) \<Longrightarrow>
     severity a = ''medium'' \<or> severity a = ''high'' \<or> severity a = ''extreme''"
  by (induction mu sd gs rule: check_salinity_groups.induct)
     (auto simp: Let_def calculate_severity_def split: if_splits)

text \<open>
  C9. The label "low" is out of reach of the detectors: every anomaly of the temperature
  detector is "high" or "extreme", every anomaly of the salinity detector is "medium",
  "high" or "extreme".
\<close>

theorem low_severity_unreachable:
  "(\<forall>a\<in>set (detect_temperature_anomalies db since).
       severity a = ''high'' \<or> severity a = ''extreme'')
   \<and> (\<forall>a\<in>set (detect_salinity_anomalies db since).
       severity a = ''medium'' \<or> severity a = ''high'' \<or> severity a = ''extreme'')"
proof (intro conjI ballI)
  fix a assume "a \<in> set (detect_temperature_anomalies db since)"
  then show "severity a = ''high'' \<or> severity a = ''extreme''"
    by (auto simp: detect_temperature_anomalies_def Let_def split: sum.splits if_splits
          dest: check_temperature_groups_severity)
next
  fix a assume "a \<in> set (detect_salinity_anomalies db since)"
  then show "severity a = ''medium'' \<or> severity a = ''high'' \<or> severity a = ''extreme''"
    by (auto simp: detect_salinity_anomalies_def Let_def split: sum.splits if_splits
          dest: check_salinity_groups_severity)
qed

theorem low_severity_unreachable_witness:
  "\<lparr> anomaly_type = ''heatwave'', severity = ''high'', start_date = 101, end_date = 101,
      a_latitude = 5, a_longitude = 5, confidence_score = 0.95, data_source = ''ARGO'' \<rparr>
     \<in> set (detect_temperature_anomalies (Inr ten_rows) 0)
   \<and> \<lparr> anomaly_type = ''high_salinity'', severity = ''high'', start_date = 101, end_date = 101,
      a_latitude = 5, a_longitude = 5, confidence_score = 0.95, data_source = ''ARGO'' \<rparr>
     \<in> set (detect_salinity_anomalies (Inr ten_rows) 0)
   \<and> set (map severity (detect_temperature_anomalies (Inr ten_rows) 0)) \<subseteq> {''high'', ''extreme''}
   \<and> set (map severity (detect_salinity_anomalies (Inr ten_rows) 0))
        \<subseteq> {''medium'', ''high'', ''extreme''}"
proof -
  from low_severity_unreachable [of "Inr ten_rows" 0]
  have "set (map severity (detect_temperature_anomalies (Inr ten_rows) 0)) \<subseteq> {''high'', ''extreme''}"
    and "set (map severity (detect_salinity_anomalies (Inr ten_rows) 0))
        \<subseteq> {''medium'', ''high'', ''extreme''}"
    by auto
  then show ?thesis
    by (simp add: ten_rows_temperature_anomalies ten_rows_salinity_anomalies)
qed

section \<open>Properties of the generators\<close>

lemma unit_draws_tail: "unit_draws g \<Longrightarrow> unit_draws (snd (random_sample g))"
  by (simp add: unit_draws_def random_sample_def)

lemma unit_draws_head: "unit_draws g \<Longrightarrow> 0 \<le> fst (random_sample g) \<and> fst (random_sample g) < 1"
  by (simp add: unit_draws_def random_sample_def)

lemma uniform_bounds:
  assumes "unit_draws g" and "low \<le> high"
  shows "low \<le> fst (uniform low high g)" and "fst (uniform low high g) \<le> high"
    and "unit_draws (snd (uniform low high g))"
proof -
  obtain u g' where r: "random_sample g = (u, g')"
    by (cases "random_sample g")
  from unit_draws_head [OF assms(1)] r have u: "0 \<le> u" "u < 1"
    by simp_all
  have "0 \<le> (high - low) * u"
    using u assms(2) by simp
  then show "low \<le> fst (uniform low high g)"
    by (simp add: uniform_def r)
  have "(high - low) * u \<le> (high - low) * 1"
    using u assms(2) by (intro mult_left_mono) simp_all
  then show "fst (uniform low high g) \<le> high"
    by (simp add: uniform_def r)
  show "unit_draws (snd (uniform low high g))"
    using unit_draws_tail [OF assms(1)] by (simp add: uniform_def r)
qed

lemma choice_mem:
  assumes "unit_draws g" and "xs \<noteq> []"
  shows "fst (choice xs g) \<in> set xs" and "unit_draws (snd (choice xs g))"
proof -
  obtain u g' where r: "random_sample g = (u, g')"
    by (cases "random_sample g")
  from unit_draws_head [OF assms(1)] r have u: "0 \<le> u" "u < 1"
    by simp_all
  have n: "0 < real (length xs)"
    using assms(2) by simp
  have "u * real (length xs) < 1 * real (length xs)"
    using u n by (intro mult_strict_right_mono) simp_all
  then have "\<lfloor>u * real (length xs)\<rfloor> < int (length xs)"
    by (simp add: floor_less_iff)
  moreover have "0 \<le> \<lfloor>u * real (length xs)\<rfloor>"
    using u by simp
  ultimately have "nat \<lfloor>u * real (length xs)\<rfloor> < length xs"
    by linarith
  then show "fst (choice xs g) \<in> set xs"
    by (simp add: choice_def r)
  show "unit_draws (snd (choice xs g))"
    using unit_draws_tail [OF assms(1)] by (simp add: choice_def r)
qed

lemma randint_unit: "unit_draws g \<Longrightarrow> unit_draws (snd (randint low high g))"
  using unit_draws_tail [of g] by (cases "random_sample g") (simp add: randint_def)

lemma draw_n_Suc:
  "draw_n f (Suc n) g =
     (fst (f g) # fst (draw_n f n (snd (f g))), snd (draw_n f n (snd (f g))))"
  by (simp split: prod.splits)

lemma length_draw_n: "length (fst (draw_n f n g)) = n"
  by (induction n arbitrary: g) (simp_all add: draw_n_Suc del: draw_n.simps(2))

lemma draw_n_all:
  assumes step: "\<And>g. unit_draws g \<Longrightarrow> P (fst (f g)) \<and> unit_draws (snd (f g))"
  shows "unit_draws g \<Longrightarrow> (\<forall>x\<in>set (fst (draw_n f n g)). P x) \<and> unit_draws (snd (draw_n f n g))"
proof (induction n arbitrary: g)
  case 0
  then show ?case by simp
next
  case (Suc n)
  from step [OF Suc.prems] have x: "P (fst (f g))" and g1: "unit_draws (snd (f g))"
    by simp_all
  from Suc.IH [OF g1] x show ?case
    by (simp add: draw_n_Suc del: draw_n.simps(2))
qed

text \<open>Rounding keeps a value between two bounds that are themselves round.\<close>

lemma py_round_ge: "of_int k \<le> x \<Longrightarrow> k \<le> py_round x"
proof -
  assume "of_int k \<le> x"
  then have "k \<le> \<lfloor>x\<rfloor>" by (simp add: le_floor_iff)
  then show ?thesis by (auto simp: py_round_def Let_def)
qed

lemma py_round_le: "x \<le> of_int k \<Longrightarrow> py_round x \<le> k"
proof -
  assume a: "x \<le> of_int k"
  show ?thesis
  proof (cases "x = of_int k")
    case True
    then show ?thesis by (simp add: py_round_def)
  next
    case False
    with a have "x < of_int k" by simp
    then have "\<lfloor>x\<rfloor> < k" by (simp add: floor_less_iff)
    then show ?thesis by (auto simp: py_round_def Let_def)
  qed
qed

lemma round_to_bounds:
  assumes "low \<le> x" and "x \<le> high"
    and "low * 10 ^ n = of_int a" and "high * 10 ^ n = of_int b"
  shows "low \<le> round_to n x \<and> round_to n x \<le> high"
proof -
  have p: "(0::real) < 10 ^ n" by simp
  have "of_int a \<le> x * 10 ^ n"
    using assms(1,3) p by (metis mult_right_mono less_imp_le)
  then have l: "a \<le> py_round (x * 10 ^ n)"
    by (rule py_round_ge)
  have "x * 10 ^ n \<le> of_int b"
    using assms(2,4) p by (metis mult_right_mono less_imp_le)
  then have h: "py_round (x * 10 ^ n) \<le> b"
    by (rule py_round_le)
  have "low = of_int a / 10 ^ n"
    using assms(3) p by (simp add: field_simps)
  moreover have "high = of_int b / 10 ^ n"
    using assms(4) p by (simp add: field_simps)
  moreover have "of_int a / (10::real) ^ n \<le> of_int (py_round (x * 10 ^ n)) / 10 ^ n"
    using l p by (simp add: divide_right_mono)
  moreover have "of_int (py_round (x * 10 ^ n)) / (10::real) ^ n \<le> of_int b / 10 ^ n"
    using h p by (simp add: divide_right_mono)
  ultimately show ?thesis
    by (simp add: round_to_def)
qed

lemma round_to_between:
  assumes "unit_draws g"
  shows "25 \<le> round_to 2 (fst (uniform 25 30 g)) \<and> round_to 2 (fst (uniform 25 30 g)) \<le> 30"
    and "20 \<le> round_to 2 (fst (uniform 20 25 g)) \<and> round_to 2 (fst (uniform 20 25 g)) \<le> 25"
    and "2 \<le> round_to 2 (fst (uniform 2 8 g)) \<and> round_to 2 (fst (uniform 2 8 g)) \<le> 8"
    and "34 \<le> round_to 2 (fst (uniform 34 37 g)) \<and> round_to 2 (fst (uniform 34 37 g)) \<le> 37"
    and "-10 \<le> round_to 4 (fst (uniform (-10) 10 g)) \<and> round_to 4 (fst (uniform (-10) 10 g)) \<le> 10"
    and "120 \<le> round_to 4 (fst (uniform 120 180 g)) \<and> round_to 4 (fst (uniform 120 180 g)) \<le> 180"
proof -
  show "25 \<le> round_to 2 (fst (uniform 25 30 g)) \<and> round_to 2 (fst (uniform 25 30 g)) \<le> 30"
    by (rule round_to_bounds [where a = 2500 and b = 3000])
       (simp_all add: uniform_bounds [OF assms])
  show "20 \<le> round_to 2 (fst (uniform 20 25 g)) \<and> round_to 2 (fst (uniform 20 25 g)) \<le> 25"
    by (rule round_to_bounds [where a = 2000 and b = 2500])
       (simp_all add: uniform_bounds [OF assms])
  show "2 \<le> round_to 2 (fst (uniform 2 8 g)) \<and> round_to 2 (fst (uniform 2 8 g)) \<le> 8"
    by (rule round_to_bounds [where a = 200 and b = 800])
       (simp_all add: uniform_bounds [OF assms])
  show "34 \<le> round_to 2 (fst (uniform 34 37 g)) \<and> round_to 2 (fst (uniform 34 37 g)) \<le> 37"
    by (rule round_to_bounds [where a = 3400 and b = 3700])
       (simp_all add: uniform_bounds [OF assms])
  show "-10 \<le> round_to 4 (fst (uniform (-10) 10 g)) \<and> round_to 4 (fst (uniform (-10) 10 g)) \<le> 10"
    by (rule round_to_bounds [where a = "-100000" and b = 100000])
       (simp_all add: uniform_bounds [OF assms])
  show "120 \<le> round_to 4 (fst (uniform 120 180 g)) \<and> round_to 4 (fst (uniform 120 180 g)) \<le> 180"
    by (rule round_to_bounds [where a = 1200000 and b = 1800000])
       (simp_all add: uniform_bounds [OF assms])
qed

lemma temperature_loop_bands:
  "unit_draws g \<Longrightarrow>
     list_all2 temperature_band depths (fst (temperature_loop depths g))
     \<and> unit_draws (snd (temperature_loop depths g))"
proof (induction depths arbitrary: g)
  case Nil
  then show ?case by simp
next
  case (Cons d depths)
  let ?draw = "if d \<le> 50 then uniform 25 30 g else if d \<le> 200 then uniform 20 25 g else uniform 2 8 g"
  have g1: "unit_draws (snd ?draw)"
    using Cons.prems by (simp add: uniform_bounds)
  have b: "temperature_band d (round_to 2 (fst ?draw))"
    using round_to_between [OF Cons.prems] by (simp add: temperature_band_def)
  have step: "temperature_loop (d # depths) g =
      (round_to 2 (fst ?draw) # fst (temperature_loop depths (snd ?draw)),
       snd (temperature_loop depths (snd ?draw)))"
    by (simp split: prod.splits)
  from Cons.IH [OF g1] b show ?case
    by (simp only: step fst_conv snd_conv list_all2_Cons simp_thms)
qed

lemma zero_measurement:
  "generate_measurement 0 (\<lambda>i. 0) =
     ([(''depth'', PyInt 0), (''pressure'', PyFloat 0), (''temperature'', PyFloat 20),
       (''salinity'', PyFloat 34.5), (''oxygen'', PyFloat 200), (''quality_flag'', PyStr ''1'')],
      \<lambda>i. 0)"
  by (simp add: generate_measurement_def uniform_def choice_def random_sample_def round_to_def
        py_round_def)

lemma measurements_loop_head:
  "measurements \<noteq> [] \<Longrightarrow> hd (fst (measurements_loop depths g measurements)) = hd measurements"
  by (induction depths arbitrary: g measurements) (simp_all split: prod.splits)

text \<open>
  C6. Read as it stands, the claim says: every record of the sample-data generators has
  the fields float id, latitude, longitude, time, depth, temperature and salinity, and a
  temperature in [25, 30] at a depth of at most 50. \<open>generate_measurements\<close> draws the
  temperature of that band from [20, 30], and its records hold the depth, the pressure,
  the temperature, the salinity, the oxygen and the quality flag only: here the first
  record, on the stream of zeros.
\<close>

theorem sample_records_counterexample:
  "unit_draws (\<lambda>i. 0)
   \<and> hd (generate_measurements (\<lambda>i. 0)) =
       [(''depth'', PyInt 0), (''pressure'', PyFloat 0), (''temperature'', PyFloat 20),
        (''salinity'', PyFloat 34.5), (''oxygen'', PyFloat 200), (''quality_flag'', PyStr ''1'')]
   \<and> map_of (hd (generate_measurements (\<lambda>i. 0))) ''depth'' = Some (PyInt 0)
   \<and> map_of (hd (generate_measurements (\<lambda>i. 0))) ''temperature'' = Some (PyFloat 20)
   \<and> \<not> (25 \<le> (20::real))
   \<and> map_of (hd (generate_measurements (\<lambda>i. 0))) ''float_id'' = None
   \<and> map_of (hd (generate_measurements (\<lambda>i. 0))) ''latitude'' = None
   \<and> map_of (hd (generate_measurements (\<lambda>i. 0))) ''longitude'' = None
   \<and> map_of (hd (generate_measurements (\<lambda>i. 0))) ''time'' = None"
proof -
  have h: "hd (generate_measurements (\<lambda>i. 0)) =
       [(''depth'', PyInt 0), (''pressure'', PyFloat 0), (''temperature'', PyFloat 20),
        (''salinity'', PyFloat 34.5), (''oxygen'', PyFloat 200), (''quality_flag'', PyStr ''1'')]"
  proof -
    have "hd (fst (measurements_loop (0 # depths) (\<lambda>i. 0) [])) =
       [(''depth'', PyInt 0), (''pressure'', PyFloat 0), (''temperature'', PyFloat 20),
        (''salinity'', PyFloat 34.5), (''oxygen'', PyFloat 200), (''quality_flag'', PyStr ''1'')]"
      for depths
      by (simp add: zero_measurement measurements_loop_head)
    then show ?thesis
      unfolding generate_measurements_def Let_def by (rule meta_spec)
  qed
  show ?thesis
    unfolding h by (simp add: unit_draws_def)
qed

text \<open>
  C6, amended. Every record of the demo's sample data (\<open>create_sample_data\<close> in app.py)
  has the seven fields float id, latitude, longitude, time, depth, temperature and
  salinity, and its values lie within the bounds of that generator: the temperature in
  [25, 30] for a depth of at most 50, in [20, 25] for a depth of at most 200, in [2, 8]
  below; the salinity in [34, 37]; the latitude in [-10, 10]; the longitude in
  [120, 180]. This holds for every stream of draws.
\<close>

theorem sample_records_valid:
  assumes "unit_draws g0"
  shows "columns (create_sample_data g0) =
           [''float_id'', ''lat'', ''lon'', ''time'', ''depth'', ''temperature'', ''salinity'']
         \<and> length (rows (create_sample_data g0)) = 30
         \<and> (\<forall>r\<in>set (rows (create_sample_data g0)). valid_record r)"
proof -
  obtain float_ids g1 where e1: "draw_n (choice [1001, 1002, 1003 :: int]) 30 g0 = (float_ids, g1)"
    by (cases "draw_n (choice [1001, 1002, 1003 :: int]) 30 g0")
  obtain days g2 where e2: "draw_n (randint 0 31) 30 g1 = (days, g2)"
    by (cases "draw_n (randint 0 31) 30 g1")
  obtain latitudes g3 where e3: "draw_n (uniform (-10) 10) 30 g2 = (latitudes, g3)"
    by (cases "draw_n (uniform (-10) 10) 30 g2")
  obtain longitudes g4 where e4: "draw_n (uniform 120 180) 30 g3 = (longitudes, g4)"
    by (cases "draw_n (uniform 120 180) 30 g3")
  obtain depths g5
    where e5: "draw_n (choice [0, 10, 50, 100, 200, 500, 1000, 2000 :: int]) 30 g4 = (depths, g5)"
    by (cases "draw_n (choice [0, 10, 50, 100, 200, 500, 1000, 2000 :: int]) 30 g4")
  obtain temperatures g6 where e6: "temperature_loop depths g5 = (temperatures, g6)"
    by (cases "temperature_loop depths g5")
  obtain salinities g7 where e7: "draw_n (uniform 34 37) 30 g6 = (salinities, g7)"
    by (cases "draw_n (uniform 34 37) 30 g6")

  have u1: "unit_draws g1"
    using draw_n_all [of "\<lambda>x. True" "choice [1001, 1002, 1003 :: int]" g0 30] assms e1
    by (simp add: choice_mem)
  have u2: "unit_draws g2"
    using draw_n_all [of "\<lambda>x. True" "randint 0 31" g1 30] u1 e2
    by (simp add: randint_unit)
  have a3: "(\<forall>x\<in>set latitudes. -10 \<le> round_to 4 x \<and> round_to 4 x \<le> 10) \<and> unit_draws g3"
    using draw_n_all [of "\<lambda>x. -10 \<le> round_to 4 x \<and> round_to 4 x \<le> 10" "uniform (-10) 10" g2 30]
      u2 e3
    by (simp add: round_to_between uniform_bounds)
  then have u3: "unit_draws g3" by simp
  have a4: "(\<forall>x\<in>set longitudes. 120 \<le> round_to 4 x \<and> round_to 4 x \<le> 180) \<and> unit_draws g4"
    using draw_n_all [of "\<lambda>x. 120 \<le> round_to 4 x \<and> round_to 4 x \<le> 180" "uniform 120 180" g3 30]
      u3 e4
    by (simp add: round_to_between uniform_bounds)
  then have u4: "unit_draws g4" by simp
  have u5: "unit_draws g5"
    using draw_n_all [of "\<lambda>x. True" "choice [0, 10, 50, 100, 200, 500, 1000, 2000 :: int]" g4 30]
      u4 e5
    by (simp add: choice_mem)
  have a6: "list_all2 temperature_band depths temperatures \<and> unit_draws g6"
    using temperature_loop_bands [OF u5, of depths] e6 by simp
  then have u6: "unit_draws g6" by simp
  have a7: "(\<forall>x\<in>set salinities. 34 \<le> round_to 2 x \<and> round_to 2 x \<le> 37) \<and> unit_draws g7"
    using draw_n_all [of "\<lambda>x. 34 \<le> round_to 2 x \<and> round_to 2 x \<le> 37" "uniform 34 37" g6 30]
      u6 e7
    by (simp add: round_to_between uniform_bounds)

  have l1: "length float_ids = 30"
    using length_draw_n [of "choice [1001, 1002, 1003 :: int]" 30 g0] e1 by simp
  have l2: "length days = 30"
    using length_draw_n [of "randint 0 31" 30 g1] e2 by simp
  have l3: "length latitudes = 30"
    using length_draw_n [of "uniform (-10) 10" 30 g2] e3 by simp
  have l4: "length longitudes = 30"
    using length_draw_n [of "uniform 120 180" 30 g3] e4 by simp
  have l5: "length depths = 30"
    using length_draw_n [of "choice [0, 10, 50, 100, 200, 500, 1000, 2000 :: int]" 30 g4] e5
    by simp
  have l6: "length temperatures = 30"
    using a6 l5 by (auto dest: list_all2_lengthD)
  have l7: "length salinities = 30"
    using length_draw_n [of "uniform 34 37" 30 g6] e7 by simp

  let ?row = "\<lambda>i. [PyInt (float_ids ! i), PyFloat (round_to 4 (latitudes ! i)),
                     PyFloat (round_to 4 (longitudes ! i)), PyDate (738580 + days ! i),
                     PyInt (depths ! i), PyFloat (temperatures ! i),
                     PyFloat (round_to 2 (salinities ! i))]"
  have df: "create_sample_data g0 =
      DataFrame [
        (''float_id'', map PyInt float_ids),
        (''lat'', map (\<lambda>x. PyFloat (round_to 4 x)) latitudes),
        (''lon'', map (\<lambda>x. PyFloat (round_to 4 x)) longitudes),
        (''time'', map PyDate (map (\<lambda>k. 738580 + k) days)),
        (''depth'', map PyInt depths),
        (''temperature'', map PyFloat temperatures),
        (''salinity'', map PyFloat (map (round_to 2) salinities))]"
    by (simp add: create_sample_data_def e1 e2 e3 e4 e5 e6 e7)
  have cols: "columns (create_sample_data g0) =
           [''float_id'', ''lat'', ''lon'', ''time'', ''depth'', ''temperature'', ''salinity'']"
    by (simp add: df DataFrame_def)
  have rows_eq: "rows (create_sample_data g0) = map ?row [0..<30]"
    unfolding df DataFrame_def
    by (simp add: l1 l2 l3 l4 l5 l6 l7 cong: map_cong)
  have valid: "valid_record (?row i)" if "i < 30" for i
  proof -
    from that l3 a3 have "-10 \<le> round_to 4 (latitudes ! i) \<and> round_to 4 (latitudes ! i) \<le> 10"
      by (metis nth_mem)
    moreover from that l4 a4
    have "120 \<le> round_to 4 (longitudes ! i) \<and> round_to 4 (longitudes ! i) \<le> 180"
      by (metis nth_mem)
    moreover from that l7 a7
    have "34 \<le> round_to 2 (salinities ! i) \<and> round_to 2 (salinities ! i) \<le> 37"
      by (metis nth_mem)
    moreover from that l5 a6 have "temperature_band (depths ! i) (temperatures ! i)"
      by (auto dest: list_all2_nthD)
    ultimately show ?thesis
      by (simp add: temperature_band_def)
  qed
  have "\<forall>r\<in>set (rows (create_sample_data g0)). valid_record r"
    unfolding rows_eq using valid by auto
  with cols rows_eq show ?thesis by simp
qed

text \<open>The generator on the stream that always yields one half.\<close>

lemma draw_n_const: "f g = (v, g) \<Longrightarrow> draw_n f n g = (replicate n v, g)"
  by (induction n) simp_all

lemma temperature_loop_const:
  "temperature_loop (replicate n 200) (\<lambda>i. 1/2) = (replicate n 22.5, \<lambda>i. 1/2)"
  by (induction n) (simp_all add: uniform_def random_sample_def round_to_def py_round_def)

lemma halves_rows:
  "rows (create_sample_data (\<lambda>i. 1/2)) =
     replicate 30 [PyInt 1002, PyFloat 0, PyFloat 150, PyDate 738595, PyInt 200,
                   PyFloat 22.5, PyFloat 35.5]"
proof -
  let ?g = "\<lambda>i::nat. 1/2 :: real"
  have c1: "draw_n (choice [1001, 1002, 1003 :: int]) 30 ?g = (replicate 30 1002, ?g)"
    by (rule draw_n_const) (simp add: choice_def random_sample_def)
  have c2: "draw_n (randint 0 31) 30 ?g = (replicate 30 15, ?g)"
    by (rule draw_n_const) (simp add: randint_def random_sample_def)
  have c3: "draw_n (uniform (-10) 10) 30 ?g = (replicate 30 0, ?g)"
    by (rule draw_n_const) (simp add: uniform_def random_sample_def)
  have c4: "draw_n (uniform 120 180) 30 ?g = (replicate 30 150, ?g)"
    by (rule draw_n_const) (simp add: uniform_def random_sample_def)
  have c5: "draw_n (choice [0, 10, 50, 100, 200, 500, 1000, 2000 :: int]) 30 ?g
              = (replicate 30 200, ?g)"
    by (rule draw_n_const) (simp add: choice_def random_sample_def)
  have c7: "draw_n (uniform 34 37) 30 ?g = (replicate 30 35.5, ?g)"
    by (rule draw_n_const) (simp add: uniform_def random_sample_def)
  show ?thesis
    by (simp add: create_sample_data_def c1 c2 c3 c4 c5 temperature_loop_const c7 DataFrame_def
          round_to_def py_round_def map_replicate_const cong: map_cong)
       (rule nth_equalityI; simp)
qed

theorem sample_records_valid_witness:
  "unit_draws (\<lambda>i. 1/2)
   \<and> [PyInt 1002, PyFloat 0, PyFloat 150, PyDate 738595, PyInt 200, PyFloat 22.5, PyFloat 35.5]
       \<in> set (rows (create_sample_data (\<lambda>i. 1/2)))
   \<and> valid_record
       [PyInt 1002, PyFloat 0, PyFloat 150, PyDate 738595, PyInt 200, PyFloat 22.5, PyFloat 35.5]
   \<and> length (rows (create_sample_data (\<lambda>i. 1/2))) = 30"
proof -
  have u: "unit_draws (\<lambda>i. 1/2)"
    by (simp add: unit_draws_def)
  have m: "[PyInt 1002, PyFloat 0, PyFloat 150, PyDate 738595, PyInt 200, PyFloat 22.5, PyFloat 35.5]
       \<in> set (rows (create_sample_data (\<lambda>i. 1/2)))"
    by (simp add: halves_rows)
  from sample_records_valid [OF u] m u show ?thesis
    by blast
qed

section \<open>Properties of the data service\<close>

lemma length_generate_loop:
  "length (fst (generate_loop env is g data)) = length data + length is"
  by (induction "is" arbitrary: g data) (simp_all split: prod.splits)

lemma length_generate_sample_data: "length (generate_sample_data env) = 50"
  by (simp add: generate_sample_data_def length_generate_loop)

lemma generate_record_shape: "generated_record i (fst (generate_record env i g))"
  by (simp add: generate_record_def generated_record_def split: prod.splits)

lemma generate_loop_shape:
  "\<exists>recs. fst (generate_loop env is g data) = data @ recs \<and> list_all2 generated_record is recs"
proof (induction "is" arbitrary: g data)
  case Nil
  then show ?case by simp
next
  case (Cons i "is")
  obtain r g' where r: "generate_record env i g = (r, g')"
    by (cases "generate_record env i g")
  have s: "generated_record i r"
    using generate_record_shape [of i env g] r by simp
  from Cons.IH [of g' "data @ [r]"] obtain recs
    where e: "fst (generate_loop env is g' (data @ [r])) = (data @ [r]) @ recs"
      and l: "list_all2 generated_record is recs"
    by blast
  have "fst (generate_loop env (i # is) g data) = data @ (r # recs)"
    using e r by simp
  moreover have "list_all2 generated_record (i # is) (r # recs)"
    using s l by simp
  ultimately show ?case by blast
qed

lemma generate_sample_data_shape:
  assumes "i < 50"
  shows "generated_record i (generate_sample_data env ! i)"
proof -
  from generate_loop_shape [of env "[0..<50]" "seeded_draws env" "[]"] obtain recs
    where e: "generate_sample_data env = recs" and l: "list_all2 generated_record [0..<50] recs"
    by (auto simp: generate_sample_data_def)
  have "generated_record ([0..<50] ! i) (recs ! i)"
    by (rule list_all2_nthD [OF l]) (simp add: assms)
  with assms e show ?thesis by simp
qed

text \<open>
  C5. If executing the query raises an exception, \<open>execute_query\<close> does not pass it on:
  it returns the rows of the sample join query, each as a dict of its seven columns, and
  if that query fails too, the 50 generated records, each with its seven keys and the
  float id of its index.
\<close>

theorem execute_query_fallback:
  assumes "execute_text db
             (if \<not> py_in ''LIMIT'' (upper sql_query)
              then rstrip_semicolons sql_query @ '' LIMIT '' @ str_nat (max_query_results self) @ '';''
              else sql_query) = Inl e"
  shows "(case execute_sample db 100 of
            Inr result_rows \<Rightarrow>
              DataService_execute_query self env sql_query db =
                Inr (map (\<lambda>row.
                       [(''latitude'', PyFloat (s_latitude row)),
                        (''longitude'', PyFloat (s_longitude row)),
                        (''profile_date'', PyStr (isoformat env (s_profile_date row))),
                        (''depth'', case s_depth row of
                                      Some v \<Rightarrow> if v \<noteq> 0 then PyFloat v else PyNone
                                    | None \<Rightarrow> PyNone),
                        (''temperature'', case s_temperature row of
                                      Some v \<Rightarrow> if v \<noteq> 0 then PyFloat v else PyNone
                                    | None \<Rightarrow> PyNone),
                        (''salinity'', case s_salinity row of
                                      Some v \<Rightarrow> if v \<noteq> 0 then PyFloat v else PyNone
                                    | None \<Rightarrow> PyNone),
                        (''float_id'', PyStr (s_float_id row))]) result_rows)
          | Inl e' \<Rightarrow>
              DataService_execute_query self env sql_query db = Inr (generate_sample_data env))
         \<and> length (generate_sample_data env) = 50
         \<and> (\<forall>i<50. generated_record i (generate_sample_data env ! i))"
proof -
  have t: "execute_query_try self sql_query db = Inl e"
    using assms by (simp add: execute_query_try_def Let_def)
  have "case execute_sample db 100 of
            Inr result_rows \<Rightarrow>
              DataService_execute_query self env sql_query db =
                Inr (map (\<lambda>row.
                       [(''latitude'', PyFloat (s_latitude row)),
                        (''longitude'', PyFloat (s_longitude row)),
                        (''profile_date'', PyStr (isoformat env (s_profile_date row))),
                        (''depth'', case s_depth row of
                                      Some v \<Rightarrow> if v \<noteq> 0 then PyFloat v else PyNone
                                    | None \<Rightarrow> PyNone),
                        (''temperature'', case s_temperature row of
                                      Some v \<Rightarrow> if v \<noteq> 0 then PyFloat v else PyNone
                                    | None \<Rightarrow> PyNone),
                        (''salinity'', case s_salinity row of
                                      Some v \<Rightarrow> if v \<noteq> 0 then PyFloat v else PyNone
                                    | None \<Rightarrow> PyNone),
                        (''float_id'', PyStr (s_float_id row))]) result_rows)
          | Inl e' \<Rightarrow>
              DataService_execute_query self env sql_query db = Inr (generate_sample_data env)"
    by (simp add: DataService_execute_query_def t get_sample_data_def get_sample_data_try_def
          sample_row_dict_def float_or_none_def split: sum.splits)
  moreover have "length (generate_sample_data env) = 50"
    by (rule length_generate_sample_data)
  moreover have "\<forall>i<50. generated_record i (generate_sample_data env ! i)"
    by (simp add: generate_sample_data_shape)
  ultimately show ?thesis by blast
qed

theorem execute_query_fallback_witness:
  "DataService_execute_query DataService_init
       \<lparr> isoformat = (\<lambda>t. ''2024-01-01T00:00:00''), datetime_now = 0, seeded_draws = (\<lambda>i. 1/2) \<rparr>
       ''SELECT * FROM nowhere''
       \<lparr> execute_text = (\<lambda>s. Inl (DatabaseError ''no such table'')),
         execute_sample = (\<lambda>n. Inr [\<lparr> s_latitude = 1.5, s_longitude = 150, s_profile_date = 7,
                                       s_depth = Some 0, s_temperature = Some 28.5,
                                       s_salinity = None, s_float_id = ''ARGO_1001'' \<rparr>]) \<rparr>
     = Inr [[(''latitude'', PyFloat 1.5), (''longitude'', PyFloat 150),
             (''profile_date'', PyStr ''2024-01-01T00:00:00''), (''depth'', PyNone),
             (''temperature'', PyFloat 28.5), (''salinity'', PyNone),
             (''float_id'', PyStr ''ARGO_1001'')]]
   \<and> DataService_execute_query DataService_init
       \<lparr> isoformat = (\<lambda>t. ''2024-01-01T00:00:00''), datetime_now = 0, seeded_draws = (\<lambda>i. 1/2) \<rparr>
       ''SELECT * FROM nowhere''
       \<lparr> execute_text = (\<lambda>s. Inl (DatabaseError ''no such table'')),
         execute_sample = (\<lambda>n. Inl (DatabaseError ''no such table'')) \<rparr>
     = Inr (generate_sample_data
         \<lparr> isoformat = (\<lambda>t. ''2024-01-01T00:00:00''), datetime_now = 0, seeded_draws = (\<lambda>i. 1/2) \<rparr>)
   \<and> length (generate_sample_data
         \<lparr> isoformat = (\<lambda>t. ''2024-01-01T00:00:00''), datetime_now = 0, seeded_draws = (\<lambda>i. 1/2) \<rparr>)
     = 50
   \<and> generated_record 13 (generate_sample_data
         \<lparr> isoformat = (\<lambda>t. ''2024-01-01T00:00:00''), datetime_now = 0, seeded_draws = (\<lambda>i. 1/2) \<rparr>
         ! 13)"
proof -
  let ?env = "\<lparr> isoformat = (\<lambda>t. ''2024-01-01T00:00:00''), datetime_now = 0,
                seeded_draws = (\<lambda>i. 1/2) \<rparr>"
  let ?db1 = "\<lparr> execute_text = (\<lambda>s. Inl (DatabaseError ''no such table'')),
         execute_sample = (\<lambda>n. Inr [\<lparr> s_latitude = 1.5, s_longitude = 150, s_profile_date = 7,
                                       s_depth = Some 0, s_temperature = Some 28.5,
                                       s_salinity = None, s_float_id = ''ARGO_1001'' \<rparr>]) \<rparr>"
  let ?db2 = "\<lparr> execute_text = (\<lambda>s. Inl (DatabaseError ''no such table'')),
                execute_sample = (\<lambda>n. Inl (DatabaseError ''no such table'')) \<rparr>"
  have a1: "execute_text ?db1
             (if \<not> py_in ''LIMIT'' (upper ''SELECT * FROM nowhere'')
              then rstrip_semicolons ''SELECT * FROM nowhere'' @ '' LIMIT ''
                     @ str_nat (max_query_results DataService_init) @ '';''
              else ''SELECT * FROM nowhere'') = Inl (DatabaseError ''no such table'')"
    by simp
  have a2: "execute_text ?db2
             (if \<not> py_in ''LIMIT'' (upper ''SELECT * FROM nowhere'')
              then rstrip_semicolons ''SELECT * FROM nowhere'' @ '' LIMIT ''
                     @ str_nat (max_query_results DataService_init) @ '';''
              else ''SELECT * FROM nowhere'') = Inl (DatabaseError ''no such table'')"
    by simp
  from execute_query_fallback [OF a1, of ?env] execute_query_fallback [OF a2, of ?env]
  show ?thesis by simp
qed

end
